theory Spec2Isabelle
  imports Complex_Main "HOL-Library.AList"
begin

section \<open>JavaScript values handled by the service\<close>

text \<open>
  The service (vendor.seo.service.ts) works on loosely typed data: bodies of HTTP
  responses and the parsed content of the signature cache file. Such data is a JSON
  value; a JavaScript expression over it may in addition be \<open>undefined\<close>, or a
  function or object of the language's library that a member read reaches through a
  prototype (\<open>'abc'.anchor\<close> is \<open>String.prototype.anchor\<close>). A value is a \<open>json\<close>;
  a \<open>jsval\<close> is a value or \<open>undefined\<close> (\<open>None\<close>). Numbers are rationals (every
  finite double is one); an object is the list of its own properties, read with
  \<open>map_of\<close>.

  \<open>JBuiltin n\<close> is the library's function or object of the name \<open>n\<close>. It is no JSON
  value: no response and no file holds one, and the service puts none into a request
  or into the cache (what it sends and stores it has read under names that no prototype
  defines). Of a built-in the model keeps the name only. The service reads members of a
  value that can be a built-in in two places (\<open>validUntil\<close> of the cache entry in
  \<open>loadSignatureFromCache\<close>, the index \<open>0\<close> of \<open>organicData.link\<close> in
  \<open>getKeywordDifficulty\<close>); no built-in has a member of these names, and the model
  answers every read of a member of a built-in with \<open>undefined\<close>.
\<close>

datatype json =
    JNull
  | JBool bool
  | JNum rat
  | JStr string
  | JArr "json list"
  | JObj "(string \<times> json) list"
  | JBuiltin string

type_synonym jsval = "json option"

datatype ErrorType = API_ERROR | UNEXPECTED_ERROR

text \<open>
  What a JavaScript \<open>throw\<close> carries: the run-time errors of the language and of the
  libraries, and the service's own \<open>McpError(message, type, statusCode, {cause})\<close>.
  The class \<open>McpError\<close> and the enumeration \<open>ErrorType\<close> are declared in
  \<open>utils/error.util\<close>, outside the file at hand: they are taken as the service
  constructs and tests them (the four arguments of the constructor, the two types it
  uses, \<open>instanceof McpError\<close>). Calls of the logger have no effect on a result and are
  left out.
\<close>

datatype exn =
    TypeError
  | RangeError
  | SyntaxError
  | URIError
  | AxiosError
  | McpError string ErrorType nat "exn option"

fun truthy_json :: "json \<Rightarrow> bool" where
  "truthy_json JNull = False"
| "truthy_json (JBool b) = b"
| "truthy_json (JNum n) = (n \<noteq> 0)"
| "truthy_json (JStr s) = (s \<noteq> [])"
| "truthy_json (JArr xs) = True"
| "truthy_json (JObj kvs) = True"
| "truthy_json (JBuiltin n) = True"

definition truthy :: "jsval \<Rightarrow> bool" where
  "truthy v = (case v of None \<Rightarrow> False | Some j \<Rightarrow> truthy_json j)"

text \<open>\<open>a || d\<close> for a default \<open>d\<close> that is a defined value.\<close>

definition js_or :: "jsval \<Rightarrow> json \<Rightarrow> json" where
  "js_or v d = (case v of None \<Rightarrow> d | Some j \<Rightarrow> if truthy_json j then j else d)"

text \<open>
  A property key that is a canonical array index (\<open>"0"\<close>, \<open>"17"\<close>; not \<open>"01"\<close>; below
  \<open>2^32 - 1\<close>) addresses an element of an array or a character of a string.
\<close>

definition is_digit :: "char \<Rightarrow> bool" where
  "is_digit c = (48 \<le> (of_char c :: nat) \<and> (of_char c :: nat) \<le> 57)"

definition array_index :: "string \<Rightarrow> nat option" where
  "array_index k =
     (if k \<noteq> [] \<and> list_all is_digit k \<and> (length k = 1 \<or> hd k \<noteq> CHR ''0'')
      then (let n = foldl (\<lambda>n c. 10 * n + (of_char c - 48)) (0::int) k
            in if n < 4294967295 then Some (nat n) else None)
      else None)"

text \<open>
  The own properties of a value: the properties of an object; the elements and the
  \<open>length\<close> of an array; the characters and the \<open>length\<close> of a string.
\<close>

fun own_prop :: "json \<Rightarrow> string \<Rightarrow> jsval" where
  "own_prop (JObj kvs) k = map_of kvs k"
| "own_prop (JArr xs) k =
     (if k = ''length'' then Some (JNum (of_nat (length xs)))
      else case array_index k of
             None \<Rightarrow> None
           | Some i \<Rightarrow> if i < length xs then Some (xs ! i) else None)"
| "own_prop (JStr s) k =
     (if k = ''length'' then Some (JNum (of_nat (length s)))
      else case array_index k of
             None \<Rightarrow> None
           | Some i \<Rightarrow> if i < length s then Some (JStr [s ! i]) else None)"
| "own_prop JNull k = None"
| "own_prop (JBool b) k = None"
| "own_prop (JNum n) k = None"
| "own_prop (JBuiltin n) k = None"

text \<open>
  The string-keyed properties of the prototype objects of the language (ECMAScript 2024
  with its annex B, the library of Node.js 20 and 22). All of them are functions, but
  for \<open>length\<close>, which an array and a string have as an own property, and for the
  accessor \<open>__proto__\<close> of \<open>Object.prototype\<close>, which \<open>js_prop\<close> treats below.
\<close>

definition object_prototype :: "string list" where
  "object_prototype =
     [''constructor'', ''__defineGetter__'', ''__defineSetter__'', ''hasOwnProperty'',
      ''__lookupGetter__'', ''__lookupSetter__'', ''isPrototypeOf'', ''propertyIsEnumerable'',
      ''toString'', ''valueOf'', ''toLocaleString'']"

definition array_prototype :: "string list" where
  "array_prototype =
     [''constructor'', ''at'', ''concat'', ''copyWithin'', ''fill'', ''find'', ''findIndex'',
      ''findLast'', ''findLastIndex'', ''lastIndexOf'', ''pop'', ''push'', ''reverse'', ''shift'',
      ''unshift'', ''slice'', ''sort'', ''splice'', ''includes'', ''indexOf'', ''join'', ''keys'',
      ''entries'', ''values'', ''forEach'', ''filter'', ''flat'', ''flatMap'', ''map'', ''every'',
      ''some'', ''reduce'', ''reduceRight'', ''toLocaleString'', ''toString'', ''toReversed'',
      ''toSorted'', ''toSpliced'', ''with'']"

definition string_prototype :: "string list" where
  "string_prototype =
     [''constructor'', ''anchor'', ''at'', ''big'', ''blink'', ''bold'', ''charAt'', ''charCodeAt'',
      ''codePointAt'', ''concat'', ''endsWith'', ''fontcolor'', ''fontsize'', ''fixed'',
      ''includes'', ''indexOf'', ''isWellFormed'', ''italics'', ''lastIndexOf'', ''link'',
      ''localeCompare'', ''match'', ''matchAll'', ''normalize'', ''padEnd'', ''padStart'',
      ''repeat'', ''replace'', ''replaceAll'', ''search'', ''slice'', ''small'', ''split'',
      ''strike'', ''sub'', ''substr'', ''substring'', ''startsWith'', ''toString'',
      ''toWellFormed'', ''trim'', ''trimStart'', ''trimLeft'', ''trimEnd'', ''trimRight'',
      ''toLocaleLowerCase'', ''toLocaleUpperCase'', ''toLowerCase'', ''toUpperCase'',
      ''valueOf'', ''sup'']"

definition number_prototype :: "string list" where
  "number_prototype =
     [''constructor'', ''toExponential'', ''toFixed'', ''toPrecision'', ''toString'', ''valueOf'',
      ''toLocaleString'']"

definition boolean_prototype :: "string list" where
  "boolean_prototype = [''constructor'', ''toString'', ''valueOf'']"

text \<open>
  The prototype chain of a value, each prototype with the name of its constructor.
  \<open>null\<close> has no members; those of a built-in are not modelled.
\<close>

fun prototypes :: "json \<Rightarrow> (string \<times> string list) list" where
  "prototypes (JObj kvs) = [(''Object'', object_prototype)]"
| "prototypes (JArr xs) = [(''Array'', array_prototype), (''Object'', object_prototype)]"
| "prototypes (JStr s) = [(''String'', string_prototype), (''Object'', object_prototype)]"
| "prototypes (JNum n) = [(''Number'', number_prototype), (''Object'', object_prototype)]"
| "prototypes (JBool b) = [(''Boolean'', boolean_prototype), (''Object'', object_prototype)]"
| "prototypes JNull = []"
| "prototypes (JBuiltin n) = []"

text \<open>
  The member \<open>k\<close> found along a prototype chain: the constructor itself for
  \<open>constructor\<close>, else the method \<open>C.prototype.k\<close> of the first prototype that has it.
\<close>

fun inherited :: "(string \<times> string list) list \<Rightarrow> string \<Rightarrow> jsval" where
  "inherited [] k = None"
| "inherited ((c, members) # chain) k =
     (if k \<in> set members
      then Some (JBuiltin (if k = ''constructor'' then c else c @ ''.prototype.'' @ k))
      else inherited chain k)"

text \<open>
  \<open>v[k]\<close> on a value that is neither \<open>null\<close> nor \<open>undefined\<close>: an own property, else
  the prototype of the value for \<open>__proto__\<close>, else an inherited member.
\<close>

definition js_prop :: "json \<Rightarrow> string \<Rightarrow> jsval" where
  "js_prop v k =
     (case own_prop v k of
        Some x \<Rightarrow> Some x
      | None \<Rightarrow>
          if k = ''__proto__''
          then (case prototypes v of
                  [] \<Rightarrow> None
                | (c, members) # chain \<Rightarrow> Some (JBuiltin (c @ ''.prototype'')))
          else inherited (prototypes v) k)"

text \<open>\<open>v.k\<close> and \<open>v[k]\<close>: reading a member of \<open>null\<close> or \<open>undefined\<close> throws.\<close>

definition js_get :: "jsval \<Rightarrow> string \<Rightarrow> exn + jsval" where
  "js_get v k =
     (case v of
        None \<Rightarrow> Inl TypeError
      | Some j \<Rightarrow> if j = JNull then Inl TypeError else Inr (js_prop j k))"

text \<open>\<open>v?.k\<close> and \<open>v?.[k]\<close>: optional chaining yields \<open>undefined\<close> instead.\<close>

definition js_opt :: "jsval \<Rightarrow> string \<Rightarrow> jsval" where
  "js_opt v k =
     (case v of
        None \<Rightarrow> None
      | Some j \<Rightarrow> if j = JNull then None else js_prop j k)"

text \<open>
  A new own property of an object takes its place in the list of the properties: the
  array indices come first, in ascending order, then the other keys in the order of
  their creation.
\<close>

fun put_index :: "nat \<Rightarrow> string \<Rightarrow> json \<Rightarrow> (string \<times> json) list \<Rightarrow> (string \<times> json) list" where
  "put_index i k v [] = [(k, v)]"
| "put_index i k v ((k', v') # kvs) =
     (case array_index k' of
        None \<Rightarrow> (k, v) # (k', v') # kvs
      | Some j \<Rightarrow> if j < i then (k', v') # put_index i k v kvs else (k, v) # (k', v') # kvs)"

definition put_own :: "string \<Rightarrow> json \<Rightarrow> (string \<times> json) list \<Rightarrow> (string \<times> json) list" where
  "put_own k v kvs =
     (if map_of kvs k \<noteq> None then AList.update k v kvs
      else case array_index k of
             None \<Rightarrow> kvs @ [(k, v)]
           | Some i \<Rightarrow> put_index i k v kvs)"

text \<open>
  \<open>target[k] = v\<close> for an object \<open>v\<close> (the service assigns an object literal), in
  strict-mode code (the file is a module), as \<open>JSON.stringify\<close> then sees the target.
  An object gets or replaces its own property; but the key \<open>__proto__\<close>, unless the
  object has it as an own property (\<open>JSON.parse\<close> makes one), is the accessor of
  \<open>Object.prototype\<close>: the assignment sets the prototype of the target and leaves its
  own properties as they are. An array gets the element, the holes below it being
  written as \<open>null\<close>; the assignment of an object to its \<open>length\<close> throws; a property of
  any other key (and the prototype) is not written by \<open>JSON.stringify\<close>. On \<open>null\<close> and
  on a primitive value the assignment throws. (A built-in is never the target: it
  would be serialised as \<open>undefined\<close>, which \<open>writeFileSync\<close> refuses.)
\<close>

fun js_put :: "json \<Rightarrow> string \<Rightarrow> json \<Rightarrow> exn + json" where
  "js_put (JObj kvs) k v =
     (if k = ''__proto__'' \<and> map_of kvs k = None then Inr (JObj kvs)
      else Inr (JObj (put_own k v kvs)))"
| "js_put (JArr xs) k v =
     (if k = ''length'' then Inl RangeError
      else case array_index k of
             None \<Rightarrow> Inr (JArr xs)
           | Some i \<Rightarrow>
               if i < length xs then Inr (JArr (xs[i := v]))
               else Inr (JArr (xs @ replicate (i - length xs) JNull @ [v])))"
| "js_put JNull k v = Inl TypeError"
| "js_put (JBool b) k v = Inl TypeError"
| "js_put (JNum n) k v = Inl TypeError"
| "js_put (JStr s) k v = Inl TypeError"
| "js_put (JBuiltin n) k v = Inl TypeError"

text \<open>
  An object literal as it is serialised (in a request body, in the cache file):
  \<open>JSON.stringify\<close> leaves out the properties whose value is \<open>undefined\<close>.
\<close>

definition obj :: "(string \<times> jsval) list \<Rightarrow> json" where
  "obj kvs = JObj (List.map_filter (\<lambda>(k, v). map_option (Pair k) v) kvs)"

definition bind_exn :: "exn + 'a \<Rightarrow> ('a \<Rightarrow> exn + 'b) \<Rightarrow> exn + 'b" where
  "bind_exn m f = (case m of Inl x \<Rightarrow> Inl x | Inr v \<Rightarrow> f v)"

section \<open>The world around the service\<close>

text \<open>
  The cache file \<open>.cache/signature_cache.json\<close> either does not exist, or cannot be
  read or parsed (\<open>readFileSync\<close> or \<open>JSON.parse\<close> throws), or parses to a JSON value.
\<close>

datatype file_state = NoFile | Unreadable | Parsed json

datatype request =
    Post string json "(string \<times> string) list"
  | Get string json "(string \<times> string) list"

text \<open>\<open>axios\<close> either throws or resolves to a response with a status and a body.\<close>

datatype http_result = Throws | Response nat jsval

text \<open>
  What a run leaves in its trace: \<open>Call f\<close> when the function \<open>f\<close> is entered (kept for
  \<open>getCapsolverToken\<close> and \<open>getSignatureAndOverview\<close>), \<open>Sleep n\<close> for a wait of \<open>n\<close>
  milliseconds, \<open>Http rq\<close> for a request handed to \<open>axios\<close>.
\<close>

datatype event = Call string | Sleep nat | Http request

text \<open>
  Everything the service does not control is an oracle that may depend on what has
  happened so far: the configuration (\<open>config.get('CAPSOLVER_API_KEY')\<close> and
  \<open>env.CAPSOLVER_API_KEY\<close>, both declared outside the file at hand), the answers of the
  network, the clock
  (\<open>Date.now()\<close>, milliseconds), the date parser behind \<open>new Date(s).getTime()\<close>
  (\<open>None\<close> is \<open>NaN\<close>), the outcome of \<open>writeFileSync\<close> (\<open>None\<close>: written; \<open>Some f\<close>: it
  throws and leaves the file as \<open>f\<close>), and \<open>encodeURIComponent\<close> (\<open>None\<close>: it throws).
\<close>

record env =
  config_key :: jsval
  env_key :: jsval
  http :: "event list \<Rightarrow> request \<Rightarrow> http_result"
  date_now :: "event list \<Rightarrow> rat"
  date_parse :: "string \<Rightarrow> rat option"
  write_file :: "event list \<Rightarrow> json \<Rightarrow> file_state option"
  encode_uri :: "string \<Rightarrow> string option"

record state =
  cache_file :: file_state
  trace :: "event list"

definition log_event :: "event \<Rightarrow> state \<Rightarrow> state" where
  "log_event ev s = s\<lparr>trace := trace s @ [ev]\<rparr>"

definition axios :: "env \<Rightarrow> request \<Rightarrow> state \<Rightarrow> http_result \<times> state" where
  "axios e rq s = (http e (trace s) rq, log_event (Http rq) s)"

section \<open>The credential cache\<close>

definition isoToTimestamp :: "env \<Rightarrow> jsval \<Rightarrow> exn + rat option" where
  "isoToTimestamp e isoDateString =
     (case isoDateString of
        Some (JStr str) \<Rightarrow>
          (let str' = (if str \<noteq> [] \<and> last str = CHR ''Z''
                       then butlast str @ ''+00:00'' else str)
           in Inr (map_option (\<lambda>ms. ms / 1000) (date_parse e str')))
      | _ \<Rightarrow> Inl TypeError)"

text \<open>\<open>a < b\<close> on numbers, false when \<open>b\<close> is \<open>NaN\<close>.\<close>

definition js_lt :: "rat \<Rightarrow> rat option \<Rightarrow> bool" where
  "js_lt a b = (case b of None \<Rightarrow> False | Some t \<Rightarrow> a < t)"

definition nulls :: "jsval \<times> jsval \<times> jsval" where
  "nulls = (Some JNull, Some JNull, Some JNull)"

text \<open>The body of the \<open>try\<close> block of \<open>loadSignatureFromCache\<close>.\<close>

definition load_try :: "env \<Rightarrow> state \<Rightarrow> string \<Rightarrow> exn + (jsval \<times> jsval \<times> jsval)" where
  "load_try e s domain =
     (case cache_file s of
        NoFile \<Rightarrow> Inr nulls
      | Unreadable \<Rightarrow> Inl SyntaxError
      | Parsed cacheData \<Rightarrow>
          bind_exn (js_get (Some cacheData) domain) (\<lambda>domainCache.
            if \<not> truthy domainCache then Inr nulls
            else
              bind_exn (js_get domainCache ''validUntil'') (\<lambda>validUntil.
                if truthy validUntil then
                  bind_exn (isoToTimestamp e validUntil) (\<lambda>validUntilTimestamp.
                    let currentTime = date_now e (trace s) / 1000 in
                    if js_lt currentTime validUntilTimestamp then
                      bind_exn (js_get domainCache ''signature'') (\<lambda>signature.
                        bind_exn (js_get domainCache ''overviewData'') (\<lambda>overviewData.
                          Inr (signature, validUntil, overviewData)))
                    else Inr nulls)
                else Inr nulls)))"

definition loadSignatureFromCache :: "env \<Rightarrow> state \<Rightarrow> string \<Rightarrow> jsval \<times> jsval \<times> jsval" where
  "loadSignatureFromCache e s domain =
     (case load_try e s domain of Inl err \<Rightarrow> nulls | Inr r \<Rightarrow> r)"

text \<open>The entry \<open>{signature, validUntil, overviewData, timestamp: Date.now() / 1000}\<close>.\<close>

definition cache_entry :: "env \<Rightarrow> state \<Rightarrow> jsval \<Rightarrow> jsval \<Rightarrow> jsval \<Rightarrow> json" where
  "cache_entry e s signature validUntil overviewData =
     obj [(''signature'', signature),
          (''validUntil'', validUntil),
          (''overviewData'', overviewData),
          (''timestamp'', Some (JNum (date_now e (trace s) / 1000)))]"

definition saveSignatureToCache ::
  "env \<Rightarrow> jsval \<Rightarrow> jsval \<Rightarrow> jsval \<Rightarrow> string \<Rightarrow> state \<Rightarrow> bool \<times> state" where
  "saveSignatureToCache e signature validUntil overviewData domain s =
     (let cacheData = (case cache_file s of
                         NoFile \<Rightarrow> JObj []
                       | Unreadable \<Rightarrow> JObj []
                       | Parsed c \<Rightarrow> c);
          entry = cache_entry e s signature validUntil overviewData
      in case js_put cacheData domain entry of
           Inl err \<Rightarrow> (False, s)
         | Inr cacheData' \<Rightarrow>
             (case write_file e (trace s) cacheData' of
                None \<Rightarrow> (True, s\<lparr>cache_file := Parsed cacheData'\<rparr>)
              | Some f \<Rightarrow> (False, s\<lparr>cache_file := f\<rparr>)))"

section \<open>The challenge solver client\<close>

definition maxAttempts :: nat where
  "maxAttempts = 30"

text \<open>The request \<open>axios.post('.../getTaskResult', {clientKey: apiKey, taskId})\<close>.\<close>

definition poll_request :: "jsval \<Rightarrow> jsval \<Rightarrow> request" where
  "poll_request apiKey taskId =
     Post ''https://api.capsolver.com/getTaskResult''
       (obj [(''clientKey'', apiKey), (''taskId'', taskId)]) []"

text \<open>
  The polling loop of \<open>getCapsolverToken\<close>: \<open>while (attempts < maxAttempts)\<close>, each
  round waiting 1000 ms before it asks for the task's result. \<open>Inl\<close> is an exception
  that leaves the loop, \<open>Inr\<close> the value of a \<open>return\<close> (or of the \<open>return null\<close>
  that follows the loop).
\<close>

function poll :: "env \<Rightarrow> jsval \<Rightarrow> jsval \<Rightarrow> nat \<Rightarrow> state \<Rightarrow> (exn + jsval) \<times> state" where
  "poll e apiKey taskId attempts s =
     (if attempts < maxAttempts then
        (let s1 = log_event (Sleep 1000) s;
             (taskResponse, s2) = axios e (poll_request apiKey taskId) s1
         in case taskResponse of
              Throws \<Rightarrow> (Inl AxiosError, s2)
            | Response code d \<Rightarrow>
                (let status = js_opt d ''status'' in
                 if status = Some (JStr ''ready'')
                 then (Inr (js_opt (js_opt d ''solution'') ''token''), s2)
                 else if status = Some (JStr ''failed'') \<or> truthy (js_opt d ''errorId'')
                 then (Inr (Some JNull), s2)
                 else poll e apiKey taskId (attempts + 1) s2))
      else (Inr (Some JNull), s))"
  by pat_completeness auto
termination
  by (relation "measure (\<lambda>(e, apiKey, taskId, attempts, s). maxAttempts - attempts)") auto

text \<open>\<open>config.get('CAPSOLVER_API_KEY') || env.CAPSOLVER_API_KEY\<close>\<close>

definition api_key :: "env \<Rightarrow> jsval" where
  "api_key e = (if truthy (config_key e) then config_key e else env_key e)"

definition create_request :: "jsval \<Rightarrow> string \<Rightarrow> request" where
  "create_request apiKey siteUrl =
     Post ''https://api.capsolver.com/createTask''
       (obj [(''clientKey'', apiKey),
             (''task'', Some (obj
                [(''type'', Some (JStr ''AntiTurnstileTaskProxyLess'')),
                 (''websiteKey'', Some (JStr ''0x4AAAAAAAAzi9ITzSN9xKMi'')),
                 (''websiteURL'', Some (JStr siteUrl)),
                 (''metadata'', Some (obj [(''action'', Some (JStr []))]))]))]) []"

definition getCapsolverToken :: "env \<Rightarrow> string \<Rightarrow> state \<Rightarrow> jsval \<times> state" where
  "getCapsolverToken e siteUrl s0 =
     (let s = log_event (Call ''getCapsolverToken'') s0;
          apiKey = api_key e
      in if \<not> truthy apiKey then (Some JNull, s)
         else
           (let (createTaskResponse, s1) = axios e (create_request apiKey siteUrl) s
            in case createTaskResponse of
                 Throws \<Rightarrow> (Some JNull, s1)
               | Response code d \<Rightarrow>
                   (let taskId = js_opt d ''taskId'' in
                    if \<not> truthy taskId then (Some JNull, s1)
                    else (case poll e apiKey taskId 0 s1 of
                            (Inl err, s2) \<Rightarrow> (Some JNull, s2)
                          | (Inr token, s2) \<Rightarrow> (token, s2)))))"

section \<open>The signature exchange client\<close>

definition overview_request :: "jsval \<Rightarrow> string \<Rightarrow> request" where
  "overview_request token domain =
     Post ''https://ahrefs.com/v4/stGetFreeBacklinksOverview''
       (obj [(''captcha'', token),
             (''mode'', Some (JStr ''subdomains'')),
             (''url'', Some (JStr domain))])
       [(''Content-Type'', ''application/json'')]"

definition getSignatureAndOverview ::
  "env \<Rightarrow> jsval \<Rightarrow> string \<Rightarrow> state \<Rightarrow> (jsval \<times> jsval \<times> jsval) \<times> state" where
  "getSignatureAndOverview e token domain s0 =
     (let s = log_event (Call ''getSignatureAndOverview'') s0;
          (response, s1) = axios e (overview_request token domain) s
      in case response of
           Throws \<Rightarrow> (nulls, s1)
         | Response status d \<Rightarrow>
             if status \<noteq> 200 then (nulls, s1)
             else
               (case d of
                  Some (JArr xs) \<Rightarrow>
                    if length xs > 1 then
                      (let secondElement = Some (xs ! 1);
                           signature = js_opt (js_opt secondElement ''signedInput'') ''signature'';
                           validUntil =
                             js_opt (js_opt (js_opt secondElement ''signedInput'') ''input'')
                               ''validUntil'';
                           overviewData = js_opt secondElement ''data''
                       in if truthy signature \<and> truthy validUntil then
                            (let (saved, s2) =
                                   saveSignatureToCache e signature validUntil overviewData domain s1
                             in ((signature, validUntil, overviewData), s2))
                          else (nulls, s1))
                    else (nulls, s1)
                | _ \<Rightarrow> (nulls, s1)))"

section \<open>Backlinks\<close>

text \<open>\<open>x.k || d\<close>: the read throws when \<open>x\<close> is \<open>null\<close> or \<open>undefined\<close>.\<close>

definition field_or :: "jsval \<Rightarrow> string \<Rightarrow> json \<Rightarrow> exn + json" where
  "field_or x k d = bind_exn (js_get x k) (\<lambda>v. Inr (js_or v d))"

text \<open>
  An object literal \<open>{k1: e1, k2: e2, ...}\<close>: the initialisers are evaluated in order
  and the first that throws ends the evaluation.
\<close>

fun literal :: "(string \<times> (exn + json)) list \<Rightarrow> exn + (string \<times> json) list" where
  "literal [] = Inr []"
| "literal ((k, m) # rest) =
     bind_exn m (\<lambda>v. bind_exn (literal rest) (\<lambda>kvs. Inr ((k, v) # kvs)))"

text \<open>\<open>xs.map(f)\<close> for a callback that may throw.\<close>

fun map_exn :: "('a \<Rightarrow> exn + 'b) \<Rightarrow> 'a list \<Rightarrow> exn + 'b list" where
  "map_exn f [] = Inr []"
| "map_exn f (x # xs) = bind_exn (f x) (\<lambda>y. bind_exn (map_exn f xs) (\<lambda>ys. Inr (y # ys)))"

text \<open>The callback of \<open>backlinks.map\<close> in \<open>formatBacklinks\<close>.\<close>

definition simplifyBacklink :: "json \<Rightarrow> exn + json" where
  "simplifyBacklink backlink =
     bind_exn
       (literal [(''anchor'', field_or (Some backlink) ''anchor'' (JStr [])),
                 (''domainRating'', field_or (Some backlink) ''domainRating'' (JNum 0)),
                 (''title'', field_or (Some backlink) ''title'' (JStr [])),
                 (''urlFrom'', field_or (Some backlink) ''urlFrom'' (JStr [])),
                 (''urlTo'', field_or (Some backlink) ''urlTo'' (JStr [])),
                 (''edu'', field_or (Some backlink) ''edu'' (JBool False)),
                 (''gov'', field_or (Some backlink) ''gov'' (JBool False))])
       (\<lambda>fields. Inr (JObj fields))"

definition formatBacklinks :: "jsval \<Rightarrow> exn + json list" where
  "formatBacklinks backlinksData =
     (case backlinksData of
        Some (JArr xs) \<Rightarrow>
          if length xs > 1 \<and>
             truthy (js_opt (js_opt (Some (xs ! 1)) ''topBacklinks'') ''backlinks'')
          then
            (case js_opt (js_opt (Some (xs ! 1)) ''topBacklinks'') ''backlinks'' of
               Some (JArr backlinks) \<Rightarrow> map_exn simplifyBacklink backlinks
             | _ \<Rightarrow> Inl TypeError)
          else Inr []
      | _ \<Rightarrow> Inr [])"

record backlinks_result =
  overview :: jsval
  backlinks :: "json list"



text \<open>
  The \<open>catch\<close> block shared by the four query functions: an \<open>McpError\<close> is thrown on
  as it is, anything else is wrapped.
\<close>

definition rethrow :: "string \<Rightarrow> exn \<Rightarrow> exn" where
  "rethrow msg err =
     (case err of
        McpError m t code cause \<Rightarrow> err
      | _ \<Rightarrow> McpError msg UNEXPECTED_ERROR 500 (Some err))"

definition list_request :: "jsval \<Rightarrow> jsval \<Rightarrow> string \<Rightarrow> request" where
  "list_request signature validUntil domain =
     Post ''https://ahrefs.com/v4/stGetFreeBacklinksList''
       (obj [(''reportType'', Some (JStr ''TopBacklinks'')),
             (''signedInput'', Some (obj
                [(''signature'', signature),
                 (''input'', Some (obj
                    [(''validUntil'', validUntil),
                     (''mode'', Some (JStr ''subdomains'')),
                     (''url'', Some (JStr (domain @ ''/'')))]))]))])
       [(''Content-Type'', ''application/json'')]"


section \<open>Keyword ideas\<close>

text \<open>
  What \<open>for (const x of v)\<close> runs over: the elements of an array, the characters of a
  string; any other value is not iterable and the loop throws.
\<close>

definition js_iter :: "jsval \<Rightarrow> exn + json list" where
  "js_iter v =
     (case v of
        Some (JArr xs) \<Rightarrow> Inr xs
      | Some (JStr str) \<Rightarrow> Inr (map (\<lambda>c. JStr [c]) str)
      | _ \<Rightarrow> Inl TypeError)"

text \<open>The body of either loop of \<open>formatKeywordIdeas\<close>: the entry it pushes.\<close>

definition simplifyIdea :: "string \<Rightarrow> json \<Rightarrow> exn + json" where
  "simplifyIdea label idea =
     bind_exn
       (literal [(''keyword'', field_or (Some idea) ''keyword'' (JStr ''No keyword'')),
                 (''country'', field_or (Some idea) ''country'' (JStr ''-'')),
                 (''difficulty'', field_or (Some idea) ''difficultyLabel'' (JStr ''Unknown'')),
                 (''volume'', field_or (Some idea) ''volumeLabel'' (JStr ''Unknown'')),
                 (''updatedAt'', field_or (Some idea) ''updatedAt'' (JStr ''-''))])
       (\<lambda>simplifiedIdea. Inr (JObj [(''label'', JStr label), (''value'', JObj simplifiedIdea)]))"

text \<open>\<open>for (const idea of ideas) { ...; result.push({label, value}) }\<close>\<close>

fun push_ideas :: "string \<Rightarrow> json list \<Rightarrow> json list \<Rightarrow> exn + json list" where
  "push_ideas label [] result = Inr result"
| "push_ideas label (idea # ideas) result =
     bind_exn (simplifyIdea label idea) (\<lambda>entry. push_ideas label ideas (result @ [entry]))"

definition formatKeywordIdeas :: "jsval \<Rightarrow> exn + json list" where
  "formatKeywordIdeas keywordData =
     (case keywordData of
        Some (JArr xs) \<Rightarrow>
          if length xs < 2 then Inr []
          else
            (let d = Some (xs ! 1);
                 allIdeas = js_opt (js_opt d ''allIdeas'') ''results'';
                 questionIdeas = js_opt (js_opt d ''questionIdeas'') ''results''
             in bind_exn
                  (if truthy allIdeas
                   then bind_exn (js_iter allIdeas) (\<lambda>ideas. push_ideas ''keyword ideas'' ideas [])
                   else Inr [])
                  (\<lambda>result.
                     if truthy questionIdeas
                     then bind_exn (js_iter questionIdeas)
                            (\<lambda>ideas. push_ideas ''question ideas'' ideas result)
                     else Inr result))
      | _ \<Rightarrow> Inr [])"

section \<open>Keyword difficulty\<close>

text \<open>
  The body of the loop over \<open>kdData.serp.results\<close>: \<open>None\<close> when the item is skipped,
  the result item when one is pushed.
\<close>

definition serpItem :: "json \<Rightarrow> exn + json option" where
  "serpItem item =
     bind_exn (js_get (Some item) ''content'') (\<lambda>content.
       if \<not> truthy content then Inr None
       else bind_exn (js_get content ''0'') (\<lambda>tag.
         if tag \<noteq> Some (JStr ''organic'') then Inr None
         else bind_exn (js_get content ''1'') (\<lambda>organicData.
           bind_exn (js_get organicData ''link'') (\<lambda>link.
             if \<not> truthy link then Inr None
             else bind_exn (js_get link ''0'') (\<lambda>linkTag.
               if linkTag \<noteq> Some (JStr ''Some'') then Inr None
               else bind_exn (js_get link ''1'') (\<lambda>linkData.
                 bind_exn
                   (literal
                      [(''title'', field_or linkData ''title'' (JStr [])),
                       (''url'', bind_exn (js_get linkData ''url'') (\<lambda>u.
                                   Inr (js_or (js_opt (js_opt u ''1'') ''url'') (JStr [])))),
                       (''position'', field_or (Some item) ''pos'' (JNum 0))])
                   (\<lambda>resultItem.
                      bind_exn (js_get linkData ''metrics'') (\<lambda>metrics.
                        if truthy metrics then
                          bind_exn
                            (literal
                               [(''domainRating'', field_or metrics ''domainRating'' (JNum 0)),
                                (''urlRating'', field_or metrics ''urlRating'' (JNum 0)),
                                (''traffic'', field_or metrics ''traffic'' (JNum 0)),
                                (''keywords'', field_or metrics ''keywords'' (JNum 0)),
                                (''topKeyword'', field_or metrics ''topKeyword'' (JStr [])),
                                (''topVolume'', field_or metrics ''topVolume'' (JNum 0))])
                            (\<lambda>extra. Inr (Some (JObj
                               (foldl (\<lambda>acc (k, v). AList.update k v acc) resultItem extra))))
                        else Inr (Some (JObj resultItem))))))))))"

fun push_serp :: "json list \<Rightarrow> json list \<Rightarrow> exn + json list" where
  "push_serp [] serpResults = Inr serpResults"
| "push_serp (item # items) serpResults =
     bind_exn (serpItem item) (\<lambda>r.
       push_serp items (case r of None \<Rightarrow> serpResults | Some resultItem \<Rightarrow> serpResults @ [resultItem]))"

text \<open>
  \<open>getKeywordDifficulty\<close> from \<open>const data = response.data\<close> to \<open>return result\<close>: the
  check of the response's format and the formatting of the result.
\<close>

definition keywordDifficulty_result :: "string \<Rightarrow> jsval \<Rightarrow> exn + json" where
  "keywordDifficulty_result keyword d =
     (let invalid = McpError (''Invalid response format from Ahrefs API for keyword: '' @ keyword)
                      API_ERROR 500 None
      in case d of
           Some (JArr xs) \<Rightarrow>
             if length xs < 2 \<or> xs ! 0 \<noteq> JStr ''Ok'' then Inl invalid
             else
               (let kdData = Some (xs ! 1) in
                bind_exn
                  (literal [(''difficulty'', field_or kdData ''difficulty'' (JNum 0)),
                            (''shortage'', field_or kdData ''shortage'' (JNum 0)),
                            (''lastUpdate'', field_or kdData ''lastUpdate'' (JStr []))])
                  (\<lambda>fields.
                     bind_exn (js_get kdData ''serp'') (\<lambda>serp.
                       if truthy (js_opt serp ''results'') then
                         bind_exn (js_iter (js_opt serp ''results'')) (\<lambda>items.
                           bind_exn (push_serp items []) (\<lambda>serpResults.
                             Inr (JObj (fields @
                               [(''serp'', JObj [(''results'', JArr serpResults)])]))))
                       else Inr (JObj (fields @ [(''serp'', JObj [(''results'', JArr [])])])))))
         | _ \<Rightarrow> Inl invalid)"

definition keywordDifficulty_site :: "string \<Rightarrow> string \<Rightarrow> string" where
  "keywordDifficulty_site country encoded =
     ''https://ahrefs.com/keyword-difficulty/?country='' @ country @ ''&input='' @ encoded"

definition keywordDifficulty_request :: "jsval \<Rightarrow> string \<Rightarrow> string \<Rightarrow> string \<Rightarrow> request" where
  "keywordDifficulty_request token country keyword encoded =
     Post ''https://ahrefs.com/v4/stGetFreeSerpOverviewForKeywordDifficultyChecker''
       (obj [(''captcha'', token),
             (''country'', Some (JStr country)),
             (''keyword'', Some (JStr keyword))])
       [(''accept'', ''*/*''),
        (''content-type'', ''application/json; charset=utf-8''),
        (''referer'', keywordDifficulty_site country encoded)]"

definition getKeywordDifficulty ::
  "env \<Rightarrow> string \<Rightarrow> string \<Rightarrow> state \<Rightarrow> (exn + json) \<times> state" where
  "getKeywordDifficulty e keyword country s =
     (let failed = ''Failed to get keyword difficulty for keyword: '' @ keyword in
      case encode_uri e keyword of
        None \<Rightarrow> (Inl (rethrow failed URIError), s)
      | Some encoded \<Rightarrow>
          (let siteUrl = keywordDifficulty_site country encoded;
               (token, s1) = getCapsolverToken e siteUrl s
           in if \<not> truthy token then
                (Inl (rethrow failed
                   (McpError (''Failed to get verification token for keyword: '' @ keyword)
                      API_ERROR 500 None)), s1)
              else
                (let (response, s2) =
                       axios e (keywordDifficulty_request token country keyword encoded) s1
                 in case response of
                      Throws \<Rightarrow> (Inl (rethrow failed AxiosError), s2)
                    | Response status d \<Rightarrow>
                        if status \<noteq> 200 then
                          (Inl (rethrow failed (McpError failed API_ERROR status None)), s2)
                        else
                          (case keywordDifficulty_result keyword d of
                             Inl err \<Rightarrow> (Inl (rethrow failed err), s2)
                           | Inr r \<Rightarrow> (Inr r, s2)))))"

section \<open>Traffic\<close>

text \<open>
  \<open>checkTraffic\<close> from \<open>const data = response.data\<close> to \<open>return result\<close>.
\<close>

definition checkTraffic_result :: "string \<Rightarrow> jsval \<Rightarrow> exn + json" where
  "checkTraffic_result domainOrUrl d =
     (let invalid = McpError (''Invalid response format from Ahrefs API for domain: '' @ domainOrUrl)
                      API_ERROR 500 None
      in case d of
           Some (JArr xs) \<Rightarrow>
             if length xs < 2 \<or> xs ! 0 \<noteq> JStr ''Ok'' then Inl invalid
             else
               (let trafficData = Some (xs ! 1) in
                bind_exn
                  (literal
                     [(''traffic_history'', field_or trafficData ''traffic_history'' (JArr [])),
                      (''traffic'',
                         bind_exn (js_get trafficData ''traffic'') (\<lambda>t.
                           Inr (JObj
                             [(''trafficMonthlyAvg'', js_or (js_opt t ''trafficMonthlyAvg'') (JNum 0)),
                              (''costMontlyAvg'', js_or (js_opt t ''costMontlyAvg'') (JNum 0))]))),
                      (''top_pages'', field_or trafficData ''top_pages'' (JArr [])),
                      (''top_countries'', field_or trafficData ''top_countries'' (JArr [])),
                      (''top_keywords'', field_or trafficData ''top_keywords'' (JArr []))])
                  (\<lambda>fields. Inr (JObj fields)))
         | _ \<Rightarrow> Inl invalid)"

text \<open>
  The request parameters are \<open>{input: JSON.stringify({...})}\<close>; the model keeps the
  object that is serialised.
\<close>

definition checkTraffic_site :: "string \<Rightarrow> string \<Rightarrow> string" where
  "checkTraffic_site domainOrUrl mode =
     ''https://ahrefs.com/traffic-checker/?input='' @ domainOrUrl @ ''&mode='' @ mode"

definition checkTraffic_request :: "jsval \<Rightarrow> string \<Rightarrow> string \<Rightarrow> string \<Rightarrow> request" where
  "checkTraffic_request token domainOrUrl mode country =
     Get ''https://ahrefs.com/v4/stGetFreeTrafficOverview''
       (obj [(''input'', Some (obj
               [(''captcha'', token),
                (''country'', Some (JStr country)),
                (''protocol'', Some (JStr ''None'')),
                (''mode'', Some (JStr mode)),
                (''url'', Some (JStr domainOrUrl))]))])
       [(''accept'', ''*/*''),
        (''content-type'', ''application/json''),
        (''referer'', checkTraffic_site domainOrUrl mode)]"

definition checkTraffic ::
  "env \<Rightarrow> string \<Rightarrow> string \<Rightarrow> string \<Rightarrow> state \<Rightarrow> (exn + json) \<times> state" where
  "checkTraffic e domainOrUrl mode country s =
     (let failed = ''Failed to check traffic for domain: '' @ domainOrUrl;
          siteUrl = checkTraffic_site domainOrUrl mode;
          (token, s1) = getCapsolverToken e siteUrl s
      in if \<not> truthy token then
           (Inl (rethrow failed
              (McpError (''Failed to get verification token for domain: '' @ domainOrUrl)
                 API_ERROR 500 None)), s1)
         else
           (let (response, s2) =
                  axios e (checkTraffic_request token domainOrUrl mode country) s1
            in case response of
                 Throws \<Rightarrow> (Inl (rethrow failed AxiosError), s2)
               | Response status d \<Rightarrow>
                   if status \<noteq> 200 then
                     (Inl (rethrow failed (McpError failed API_ERROR status None)), s2)
                   else
                     (case checkTraffic_result domainOrUrl d of
                        Inl err \<Rightarrow> (Inl (rethrow failed err), s2)
                      | Inr r \<Rightarrow> (Inr r, s2))))"

section \<open>Vocabulary of the properties\<close>

text \<open>
  The definitions of this section are not part of the program: they name what the
  properties below speak about (what a run did, which part of a response a function
  looks at, the shape of a result).
\<close>

text \<open>
  \<open>n\<close> rounds of the polling loop as they appear in the trace: a wait of 1000 ms,
  then the request for the task's result.
\<close>

definition rounds :: "request \<Rightarrow> nat \<Rightarrow> event list" where
  "rounds rq n = concat (replicate n [Sleep 1000, Http rq])"

text \<open>
  The answers to a poll, in the order the loop tests them: an answer is pending when
  its status is neither \<open>ready\<close> nor \<open>failed\<close> and it has no truthy \<open>errorId\<close>; it reports
  a failure when its status is not \<open>ready\<close> and it is \<open>failed\<close> or has a truthy \<open>errorId\<close>.
\<close>

definition poll_pending :: "http_result \<Rightarrow> bool" where
  "poll_pending r =
     (case r of
        Throws \<Rightarrow> False
      | Response code d \<Rightarrow>
          js_opt d ''status'' \<noteq> Some (JStr ''ready'') \<and>
          js_opt d ''status'' \<noteq> Some (JStr ''failed'') \<and>
          \<not> truthy (js_opt d ''errorId''))"

definition poll_failed :: "http_result \<Rightarrow> bool" where
  "poll_failed r =
     (case r of
        Throws \<Rightarrow> False
      | Response code d \<Rightarrow>
          js_opt d ''status'' \<noteq> Some (JStr ''ready'') \<and>
          (js_opt d ''status'' = Some (JStr ''failed'') \<or> truthy (js_opt d ''errorId'')))"

text \<open>
  An answer whose status is \<open>ready\<close> ends the polling, whatever else it carries; the
  token it carries is \<open>data?.solution?.token\<close>.
\<close>

definition poll_ready :: "http_result \<Rightarrow> bool" where
  "poll_ready r =
     (case r of
        Throws \<Rightarrow> False
      | Response code d \<Rightarrow> js_opt d ''status'' = Some (JStr ''ready''))"

definition poll_token :: "http_result \<Rightarrow> jsval" where
  "poll_token r =
     (case r of
        Throws \<Rightarrow> None
      | Response code d \<Rightarrow> js_opt (js_opt d ''solution'') ''token'')"

text \<open>
  The trace at the moment the polling starts; the state in which the signature
  exchange has sent its request, and the answer it gets.
\<close>

definition solve_start :: "env \<Rightarrow> string \<Rightarrow> state \<Rightarrow> event list" where
  "solve_start e siteUrl s =
     trace s @ [Call ''getCapsolverToken'', Http (create_request (api_key e) siteUrl)]"

definition mint_start :: "jsval \<Rightarrow> string \<Rightarrow> state \<Rightarrow> state" where
  "mint_start token domain s =
     s\<lparr>trace := trace s @ [Call ''getSignatureAndOverview'', Http (overview_request token domain)]\<rparr>"

definition mint_response :: "env \<Rightarrow> jsval \<Rightarrow> string \<Rightarrow> state \<Rightarrow> http_result" where
  "mint_response e token domain s =
     http e (trace s @ [Call ''getSignatureAndOverview'']) (overview_request token domain)"

text \<open>
  \<open>x?.signedInput?.signature\<close> and \<open>x?.signedInput?.input?.validUntil\<close>.
\<close>

definition signature_of :: "json \<Rightarrow> jsval" where
  "signature_of x = js_opt (js_opt (Some x) ''signedInput'') ''signature''"

definition validUntil_of :: "json \<Rightarrow> jsval" where
  "validUntil_of x = js_opt (js_opt (js_opt (Some x) ''signedInput'') ''input'') ''validUntil''"

text \<open>
  What \<open>saveSignatureToCache\<close> can read of the previous store: the properties of the
  JSON object in the file; nothing (the empty object) when the file is missing or cannot
  be read or parsed. A file that parses to something else than an object is no store.
\<close>

definition readable_store :: "state \<Rightarrow> (string \<times> json) list option" where
  "readable_store s =
     (case cache_file s of
        NoFile \<Rightarrow> Some []
      | Unreadable \<Rightarrow> Some []
      | Parsed c \<Rightarrow> (case c of JObj kvs \<Rightarrow> Some kvs | _ \<Rightarrow> None))"

text \<open>
  An array of length at least 2 whose first element is the tag \<open>'Ok'\<close>, and the error
  the keyword-difficulty and traffic functions throw for any other body.
\<close>

definition tagged_ok :: "jsval \<Rightarrow> bool" where
  "tagged_ok d =
     (case d of
        Some (JArr xs) \<Rightarrow> 2 \<le> length xs \<and> hd xs = JStr ''Ok''
      | _ \<Rightarrow> False)"

definition invalid_format :: "string \<Rightarrow> string \<Rightarrow> exn" where
  "invalid_format what subject =
     McpError (''Invalid response format from Ahrefs API for '' @ what @ '': '' @ subject)
       API_ERROR 500 None"

text \<open>
  \<open>backlinksData[1]?.topBacklinks?.backlinks\<close> of an array of length greater than 1
  (\<open>undefined\<close> for any other input), and the seven fields of a normalised backlink.
\<close>

definition backlinks_payload :: "jsval \<Rightarrow> jsval" where
  "backlinks_payload d =
     (case d of
        Some (JArr xs) \<Rightarrow>
          if 1 < length xs then js_opt (js_opt (Some (xs ! 1)) ''topBacklinks'') ''backlinks''
          else None
      | _ \<Rightarrow> None)"

definition backlink_fields :: "json \<Rightarrow> json" where
  "backlink_fields item =
     JObj [(''anchor'', js_or (js_prop item ''anchor'') (JStr [])),
           (''domainRating'', js_or (js_prop item ''domainRating'') (JNum 0)),
           (''title'', js_or (js_prop item ''title'') (JStr [])),
           (''urlFrom'', js_or (js_prop item ''urlFrom'') (JStr [])),
           (''urlTo'', js_or (js_prop item ''urlTo'') (JStr [])),
           (''edu'', js_or (js_prop item ''edu'') (JBool False)),
           (''gov'', js_or (js_prop item ''gov'') (JBool False))]"

definition field_names :: "json \<Rightarrow> string list" where
  "field_names v = (case v of JObj kvs \<Rightarrow> map fst kvs | _ \<Rightarrow> [])"

text \<open>
  \<open>keywordData[1]?.<group>?.results\<close> of an array of length at least 2, the ideas a loop
  of \<open>formatKeywordIdeas\<close> runs over (none for a falsy group; \<open>None\<close> when the group is
  not iterable), and the entry made of one idea.
\<close>

definition idea_group :: "jsval \<Rightarrow> string \<Rightarrow> jsval" where
  "idea_group d g =
     (case d of
        Some (JArr xs) \<Rightarrow>
          if 2 \<le> length xs then js_opt (js_opt (Some (xs ! 1)) g) ''results'' else None
      | _ \<Rightarrow> None)"

definition ideas_of :: "jsval \<Rightarrow> json list option" where
  "ideas_of v =
     (if truthy v then (case js_iter v of Inl err \<Rightarrow> None | Inr xs \<Rightarrow> Some xs) else Some [])"

definition idea_value :: "json \<Rightarrow> json" where
  "idea_value idea =
     JObj [(''keyword'', js_or (js_prop idea ''keyword'') (JStr ''No keyword'')),
           (''country'', js_or (js_prop idea ''country'') (JStr ''-'')),
           (''difficulty'', js_or (js_prop idea ''difficultyLabel'') (JStr ''Unknown'')),
           (''volume'', js_or (js_prop idea ''volumeLabel'') (JStr ''Unknown'')),
           (''updatedAt'', js_or (js_prop idea ''updatedAt'') (JStr ''-''))]"

definition idea_entry :: "string \<Rightarrow> json \<Rightarrow> json" where
  "idea_entry label idea = JObj [(''label'', JStr label), (''value'', idea_value idea)]"





section \<open>Test worlds\<close>

text \<open>
  A concrete world for the instances below: the solver key comes from the environment,
  the network is down, the clock stands in November 2023, the date parser knows two
  dates, and the file system accepts every write.
\<close>

definition env0 :: env where
  "env0 = \<lparr>config_key = None, env_key = Some (JStr ''CAP-KEY''),
            http = (\<lambda>h rq. Throws),
            date_now = (\<lambda>h. 1700000000000),
            date_parse = (\<lambda>str. if str = ''2030-01-01T00:00:00+00:00'' then Some 1893456000000
                                else if str = ''2020-01-01T00:00:00+00:00'' then Some 1577836800000
                                else None),
            write_file = (\<lambda>h c. None),
            encode_uri = Some\<rparr>"

text \<open>
  A cache entry with a given \<open>validUntil\<close>, a store with two entries, a file system
  that refuses every write, and the state before any run.
\<close>

definition cred_entry :: "string \<Rightarrow> json" where
  "cred_entry validUntil =
     JObj [(''signature'', JStr ''sig''), (''validUntil'', JStr validUntil),
           (''overviewData'', JObj [(''backlinks'', JNum 7)]), (''timestamp'', JNum 1699999000)]"



definition fresh :: state where
  "fresh = \<lparr>cache_file = NoFile, trace = []\<rparr>"

text \<open>
  Answers of the solving service: a task was created; the task is in progress; the
  task failed; the task is solved.
\<close>

definition created :: http_result where
  "created = Response 200 (Some (JObj [(''errorId'', JNum 0), (''taskId'', JStr ''task-1'')]))"

definition processing :: http_result where
  "processing = Response 200 (Some (JObj [(''errorId'', JNum 0), (''status'', JStr ''processing'')]))"

definition task_failed :: http_result where
  "task_failed = Response 200 (Some (JObj [(''errorId'', JNum 1), (''status'', JStr ''failed'')]))"

definition ready :: http_result where
  "ready = Response 200 (Some (JObj [(''errorId'', JNum 0), (''status'', JStr ''ready''),
                                     (''solution'', JObj [(''token'', JStr ''token-1'')])]))"

text \<open>The solver accepts the task and never finishes it.\<close>

definition http_pending :: "event list \<Rightarrow> request \<Rightarrow> http_result" where
  "http_pending h rq =
     (if rq = create_request (Some (JStr ''CAP-KEY'')) ''https://ahrefs.com/x'' then created
      else processing)"

definition env_pending :: env where
  "env_pending = env0\<lparr>http := http_pending\<rparr>"

text \<open>The solver reports a failure at the third poll (seven events into the run).\<close>

definition http_failing :: "event list \<Rightarrow> request \<Rightarrow> http_result" where
  "http_failing h rq =
     (if rq = create_request (Some (JStr ''CAP-KEY'')) ''https://ahrefs.com/x'' then created
      else if length h < 7 then processing else task_failed)"

definition env_failing :: env where
  "env_failing = env0\<lparr>http := http_failing\<rparr>"

text \<open>
  The solver answers the first poll with a solved task that carries an error indicator.
\<close>

definition ready_flagged :: jsval where
  "ready_flagged = Some (JObj [(''errorId'', JNum 1), (''status'', JStr ''ready''),
                               (''solution'', JObj [(''token'', JStr ''token-1'')])])"

definition http_flagged :: "event list \<Rightarrow> request \<Rightarrow> http_result" where
  "http_flagged h rq =
     (if rq = create_request (Some (JStr ''CAP-KEY'')) ''https://ahrefs.com/x'' then created
      else Response 200 ready_flagged)"

definition env_flagged :: env where
  "env_flagged = env0\<lparr>http := http_flagged\<rparr>"

text \<open>
  The solver solves the task at the second poll.
\<close>

definition http_second :: "event list \<Rightarrow> request \<Rightarrow> http_result" where
  "http_second h rq =
     (if rq = create_request (Some (JStr ''CAP-KEY'')) ''https://ahrefs.com/x'' then created
      else if length h < 5 then processing else ready)"

definition env_second :: env where
  "env_second = env0\<lparr>http := http_second\<rparr>"

text \<open>
  No key for the solving service.
\<close>

definition env_nokey :: env where
  "env_nokey = env0\<lparr>env_key := None\<rparr>"

text \<open>
  A body of the overview endpoint with a signed input, and a world whose platform
  answers it with status 201.
\<close>

definition overview_body :: "json list" where
  "overview_body =
     [JStr ''Ok'',
      JObj [(''signedInput'', JObj [(''signature'', JStr ''sig-1''),
                                    (''input'', JObj [(''validUntil'', JStr ''2030-01-01T00:00:00Z'')])]),
            (''data'', JObj [(''domainRating'', JNum 55)])]]"

definition env_201 :: env where
  "env_201 = env0\<lparr>http := (\<lambda>h rq. Response 201 (Some (JArr overview_body)))\<rparr>"

definition request_url :: "request \<Rightarrow> string" where
  "request_url rq = (case rq of Post u b hs \<Rightarrow> u | Get u b hs \<Rightarrow> u)"

text \<open>
  A world in which the solver solves every task at the first poll, the overview
  endpoint answers \<open>ov\<close> and every other endpoint of the platform answers \<open>other\<close>.
\<close>

definition http_world :: "http_result \<Rightarrow> http_result \<Rightarrow> event list \<Rightarrow> request \<Rightarrow> http_result" where
  "http_world ov other h rq =
     (if request_url rq = ''https://api.capsolver.com/createTask'' then created
      else if request_url rq = ''https://api.capsolver.com/getTaskResult'' then ready
      else if request_url rq = ''https://ahrefs.com/v4/stGetFreeBacklinksOverview'' then ov
      else other)"

definition env_world :: "http_result \<Rightarrow> http_result \<Rightarrow> env" where
  "env_world ov other = env0\<lparr>http := http_world ov other\<rparr>"

text \<open>
  The trace of one solve in such a world.
\<close>

definition solved_trace :: "string \<Rightarrow> event list" where
  "solved_trace siteUrl =
     [Call ''getCapsolverToken'', Http (create_request (Some (JStr ''CAP-KEY'')) siteUrl),
      Sleep 1000, Http (poll_request (Some (JStr ''CAP-KEY'')) (Some (JStr ''task-1'')))]"

text \<open>
  Bodies: one tagged \<open>'Error'\<close>; the overview body with another first element; a
  backlink with every field and one more; a backlinks list; keyword ideas in two groups.
\<close>

definition bad_body :: jsval where
  "bad_body = Some (JArr [JStr ''Error'', JObj [(''message'', JStr ''captcha rejected'')]])"



definition backlink_full :: json where
  "backlink_full =
     JObj [(''anchor'', JStr ''best seo''), (''domainRating'', JNum 71), (''title'', JStr ''Guide''),
           (''urlFrom'', JStr ''https://a.example/x''), (''urlTo'', JStr ''https://example.com/''),
           (''edu'', JBool True), (''gov'', JBool False), (''ahrefsRank'', JNum 9)]"

definition backlinks_body :: "json list \<Rightarrow> jsval" where
  "backlinks_body items =
     Some (JArr [JStr ''Ok'', JObj [(''topBacklinks'', JObj [(''backlinks'', JArr items)])]])"

definition ideas_body :: jsval where
  "ideas_body =
     Some (JArr [JStr ''Ok'',
       JObj [(''allIdeas'', JObj [(''results'',
                JArr [JObj [(''keyword'', JStr ''a''), (''country'', JStr ''us''),
                            (''difficultyLabel'', JStr ''Easy''), (''volumeLabel'', JStr ''MoreThanOneHundred''),
                            (''updatedAt'', JStr ''2025-04-01T00:00:00Z'')],
                      JObj []])]),
             (''questionIdeas'', JObj [(''results'', JArr [JObj [(''keyword'', JStr ''b'')]])])]])"


text \<open>
  A world in which a backlinks query succeeds, and the state its first run leaves.
\<close>

definition site_world :: env where
  "site_world = env_world (Response 200 (Some (JArr overview_body)))
                          (Response 200 (backlinks_body [backlink_full]))"


section \<open>Member reads and assignments\<close>

lemma bind_exn_simps [simp]:
  "bind_exn (Inl x) f = Inl x" "bind_exn (Inr v) f = f v"
  by (simp_all add: bind_exn_def)


lemma not_inherited:
  assumes "k \<notin> set object_prototype" "k \<notin> set array_prototype" "k \<notin> set string_prototype"
    "k \<notin> set number_prototype" "k \<notin> set boolean_prototype" "k \<noteq> ''__proto__''"
  shows "js_prop v k = own_prop v k"
  using assms by (cases v) (simp_all add: js_prop_def split: option.splits)

text \<open>
  No prototype has a member of one of the names the service reads, but for \<open>anchor\<close>
  (and \<open>link\<close>), which a string inherits.
\<close>

lemma js_prop_fixed [simp]:
  "js_prop v ''taskId'' = own_prop v ''taskId''"
  "js_prop v ''status'' = own_prop v ''status''"
  "js_prop v ''errorId'' = own_prop v ''errorId''"
  "js_prop v ''solution'' = own_prop v ''solution''"
  "js_prop v ''token'' = own_prop v ''token''"
  "js_prop v ''signedInput'' = own_prop v ''signedInput''"
  "js_prop v ''signature'' = own_prop v ''signature''"
  "js_prop v ''input'' = own_prop v ''input''"
  "js_prop v ''validUntil'' = own_prop v ''validUntil''"
  "js_prop v ''data'' = own_prop v ''data''"
  "js_prop v ''overviewData'' = own_prop v ''overviewData''"
  "js_prop v ''topBacklinks'' = own_prop v ''topBacklinks''"
  "js_prop v ''backlinks'' = own_prop v ''backlinks''"
  "js_prop v ''domainRating'' = own_prop v ''domainRating''"
  "js_prop v ''title'' = own_prop v ''title''"
  "js_prop v ''urlFrom'' = own_prop v ''urlFrom''"
  "js_prop v ''urlTo'' = own_prop v ''urlTo''"
  "js_prop v ''edu'' = own_prop v ''edu''"
  "js_prop v ''gov'' = own_prop v ''gov''"
  "js_prop v ''allIdeas'' = own_prop v ''allIdeas''"
  "js_prop v ''questionIdeas'' = own_prop v ''questionIdeas''"
  "js_prop v ''results'' = own_prop v ''results''"
  "js_prop v ''keyword'' = own_prop v ''keyword''"
  "js_prop v ''country'' = own_prop v ''country''"
  "js_prop v ''difficultyLabel'' = own_prop v ''difficultyLabel''"
  "js_prop v ''volumeLabel'' = own_prop v ''volumeLabel''"
  "js_prop v ''updatedAt'' = own_prop v ''updatedAt''"
  "js_prop v ''label'' = own_prop v ''label''"
  "js_prop v ''value'' = own_prop v ''value''"
  "js_prop v ''difficulty'' = own_prop v ''difficulty''"
  "js_prop v ''volume'' = own_prop v ''volume''"
  "js_prop v ''example.com'' = own_prop v ''example.com''"
  "js_prop v ''other.org'' = own_prop v ''other.org''"
  by (rule not_inherited;
      simp add: object_prototype_def array_prototype_def string_prototype_def
        number_prototype_def boolean_prototype_def)+

lemma js_prop_anchor:
  "js_prop (JStr str) ''anchor'' = Some (JBuiltin ''String.prototype.anchor'')"
  "\<forall>str. v \<noteq> JStr str \<Longrightarrow> js_prop v ''anchor'' = own_prop v ''anchor''"
proof -
  have idx: "array_index ''anchor'' = None" by (simp add: array_index_def is_digit_def)
  show "js_prop (JStr str) ''anchor'' = Some (JBuiltin ''String.prototype.anchor'')"
    by (simp add: js_prop_def idx string_prototype_def)
  assume "\<forall>str. v \<noteq> JStr str"
  then show "js_prop v ''anchor'' = own_prop v ''anchor''"
    by (cases v)
       (simp_all add: js_prop_def object_prototype_def array_prototype_def
          number_prototype_def boolean_prototype_def split: option.splits)
qed


lemma js_get_opt: "v = Some j \<Longrightarrow> j \<noteq> JNull \<Longrightarrow> js_get v k = Inr (js_opt v k)"
  by (simp add: js_get_def js_opt_def)




section \<open>Properties of the credential cache\<close>

subsection \<open>Loading\<close>

lemma isoToTimestamp_Inr:
  "isoToTimestamp e v = Inr ts \<Longrightarrow> \<exists>str. v = Some (JStr str)"
  by (auto simp: isoToTimestamp_def split: option.splits json.splits)

lemma load_try_Parsed:
  assumes "cache_file s = Parsed c" and "js_opt (Some c) d = Some entry"
  shows "load_try e s d =
     (if \<not> truthy (Some entry) then Inr nulls
      else if \<not> truthy (js_opt (Some entry) ''validUntil'') then Inr nulls
      else bind_exn (isoToTimestamp e (js_opt (Some entry) ''validUntil'')) (\<lambda>ts.
             if js_lt (date_now e (trace s) / 1000) ts
             then Inr (js_opt (Some entry) ''signature'', js_opt (Some entry) ''validUntil'',
                       js_opt (Some entry) ''overviewData'')
             else Inr nulls))"
proof -
  from assms(2) have c: "c \<noteq> JNull" by (auto simp: js_opt_def split: if_splits)
  have g: "js_get (Some c) d = Inr (Some entry)"
    using js_get_opt[OF refl c, of d] assms(2) by simp
  show ?thesis
  proof (cases "truthy (Some entry)")
    case False
    then show ?thesis using assms(1) g by (simp add: load_try_def)
  next
    case True
    then have en: "entry \<noteq> JNull" by (auto simp: truthy_def)
    have ge: "\<And>k. js_get (Some entry) k = Inr (js_opt (Some entry) k)"
      using js_get_opt[OF refl en] by simp
    show ?thesis using assms(1) g True
      by (simp add: load_try_def ge Let_def cong: if_cong)
  qed
qed


lemma load_hit:
  assumes "loadSignatureFromCache e s d \<noteq> nulls"
  shows "\<exists>c entry v t. cache_file s = Parsed c \<and> js_opt (Some c) d = Some entry
        \<and> js_opt (Some entry) ''validUntil'' = Some (JStr v)
        \<and> isoToTimestamp e (Some (JStr v)) = Inr (Some t)
        \<and> date_now e (trace s) / 1000 < t
        \<and> loadSignatureFromCache e s d =
            (js_opt (Some entry) ''signature'', Some (JStr v), js_opt (Some entry) ''overviewData'')"
proof (cases "cache_file s")
  case NoFile
  with assms show ?thesis by (simp add: loadSignatureFromCache_def load_try_def)
next
  case Unreadable
  with assms show ?thesis by (simp add: loadSignatureFromCache_def load_try_def)
next
  case (Parsed c)
  show ?thesis
  proof (cases "js_opt (Some c) d")
    case None
    then have "load_try e s d = Inl TypeError \<or> load_try e s d = Inr nulls"
      using Parsed by (auto simp: load_try_def js_get_def js_opt_def truthy_def split: if_splits)
    with assms show ?thesis by (auto simp: loadSignatureFromCache_def)
  next
    case (Some entry)
    note lt = load_try_Parsed[OF Parsed Some, of e]
    let ?v = "js_opt (Some entry) ''validUntil''"
    from assms lt have t1: "truthy (Some entry)" and t2: "truthy ?v"
      by (auto simp: loadSignatureFromCache_def split: if_splits)
    from assms lt t1 t2 obtain ts where ts: "isoToTimestamp e ?v = Inr ts"
      by (cases "isoToTimestamp e ?v") (auto simp: loadSignatureFromCache_def)
    then obtain v where v: "?v = Some (JStr v)" using isoToTimestamp_Inr by blast
    from assms lt t1 t2 ts have lt2: "js_lt (date_now e (trace s) / 1000) ts"
      by (auto simp: loadSignatureFromCache_def split: if_splits)
    then obtain t where t: "ts = Some t" "date_now e (trace s) / 1000 < t"
      by (cases ts) (auto simp: js_lt_def)
    have "loadSignatureFromCache e s d =
            (js_opt (Some entry) ''signature'', Some (JStr v), js_opt (Some entry) ''overviewData'')"
      using lt t1 t2 ts lt2 v by (simp add: loadSignatureFromCache_def)
    with Parsed Some v ts t show ?thesis by auto
  qed
qed

lemma load_no_entry:
  assumes "cache_file s = Parsed c" "js_opt (Some c) d = None"
  shows "loadSignatureFromCache e s d = nulls"
  using assms
  by (auto simp: loadSignatureFromCache_def load_try_def js_get_def js_opt_def truthy_def
      split: if_splits)

lemma load_expired:
  assumes "cache_file s = Parsed c" "js_opt (Some c) d = Some entry"
    "isoToTimestamp e (js_opt (Some entry) ''validUntil'') = Inr ts"
    "\<not> js_lt (date_now e (trace s) / 1000) ts"
  shows "loadSignatureFromCache e s d = nulls"
  using load_try_Parsed[OF assms(1,2), of e] assms(3,4)
  by (simp add: loadSignatureFromCache_def)

text \<open>
  Claim C3. \<open>loadSignatureFromCache\<close> returns \<open>[null, null, null]\<close> when the cache
  file does not exist, when it cannot be read or parsed, when the store has no entry
  for the domain, and when the entry's \<open>validUntil\<close> is not strictly after the current
  time (\<open>Date.now() / 1000\<close>); whenever it returns anything else, the store has an
  entry for the domain whose \<open>validUntil\<close> is a date string strictly after the current
  time, and the result is that entry's signature, \<open>validUntil\<close> and overview data.
  The function has no exceptional result: whatever its \<open>try\<close> block throws, it
  returns \<open>[null, null, null]\<close>.
\<close>

theorem load_absent_unless_valid:
  "(cache_file s = NoFile \<longrightarrow> loadSignatureFromCache e s d = nulls) \<and>
   (cache_file s = Unreadable \<longrightarrow> loadSignatureFromCache e s d = nulls) \<and>
   (\<forall>c. cache_file s = Parsed c \<and> js_opt (Some c) d = None
        \<longrightarrow> loadSignatureFromCache e s d = nulls) \<and>
   (\<forall>c entry ts. cache_file s = Parsed c \<and> js_opt (Some c) d = Some entry
        \<and> isoToTimestamp e (js_opt (Some entry) ''validUntil'') = Inr ts
        \<and> \<not> js_lt (date_now e (trace s) / 1000) ts
        \<longrightarrow> loadSignatureFromCache e s d = nulls) \<and>
   (loadSignatureFromCache e s d \<noteq> nulls \<longrightarrow>
     (\<exists>c entry v t. cache_file s = Parsed c \<and> js_opt (Some c) d = Some entry
        \<and> js_opt (Some entry) ''validUntil'' = Some (JStr v)
        \<and> isoToTimestamp e (Some (JStr v)) = Inr (Some t)
        \<and> date_now e (trace s) / 1000 < t
        \<and> loadSignatureFromCache e s d =
            (js_opt (Some entry) ''signature'', Some (JStr v), js_opt (Some entry) ''overviewData'')))"
proof (intro conjI allI impI)
  assume "cache_file s = NoFile"
  then show "loadSignatureFromCache e s d = nulls"
    by (simp add: loadSignatureFromCache_def load_try_def)
next
  assume "cache_file s = Unreadable"
  then show "loadSignatureFromCache e s d = nulls"
    by (simp add: loadSignatureFromCache_def load_try_def)
next
  fix c assume "cache_file s = Parsed c \<and> js_opt (Some c) d = None"
  then show "loadSignatureFromCache e s d = nulls" using load_no_entry by blast
next
  fix c entry ts
  assume "cache_file s = Parsed c \<and> js_opt (Some c) d = Some entry
        \<and> isoToTimestamp e (js_opt (Some entry) ''validUntil'') = Inr ts
        \<and> \<not> js_lt (date_now e (trace s) / 1000) ts"
  then show "loadSignatureFromCache e s d = nulls" using load_expired by blast
next
  assume "loadSignatureFromCache e s d \<noteq> nulls"
  then show "\<exists>c entry v t. cache_file s = Parsed c \<and> js_opt (Some c) d = Some entry
        \<and> js_opt (Some entry) ''validUntil'' = Some (JStr v)
        \<and> isoToTimestamp e (Some (JStr v)) = Inr (Some t)
        \<and> date_now e (trace s) / 1000 < t
        \<and> loadSignatureFromCache e s d =
            (js_opt (Some entry) ''signature'', Some (JStr v), js_opt (Some entry) ''overviewData'')"
    by (rule load_hit)
qed

lemma iso_2030: "isoToTimestamp env0 (Some (JStr ''2030-01-01T00:00:00Z'')) = Inr (Some 1893456000)"
  by (simp add: isoToTimestamp_def env0_def)

lemma iso_2020: "isoToTimestamp env0 (Some (JStr ''2020-01-01T00:00:00Z'')) = Inr (Some 1577836800)"
  by (simp add: isoToTimestamp_def env0_def)

theorem load_absent_unless_valid_witness:
  "loadSignatureFromCache env0 \<lparr>cache_file = NoFile, trace = []\<rparr> ''example.com'' = nulls \<and>
   loadSignatureFromCache env0 \<lparr>cache_file = Unreadable, trace = []\<rparr> ''example.com'' = nulls \<and>
   loadSignatureFromCache env0 \<lparr>cache_file = Parsed (JObj [(''other.org'', cred_entry ''2030-01-01T00:00:00Z'')]), trace = []\<rparr>
       ''example.com'' = nulls \<and>
   loadSignatureFromCache env0 \<lparr>cache_file = Parsed (JObj [(''example.com'', cred_entry ''2020-01-01T00:00:00Z'')]), trace = []\<rparr>
       ''example.com'' = nulls \<and>
   loadSignatureFromCache env0 \<lparr>cache_file = Parsed (JObj [(''example.com'', cred_entry ''2030-01-01T00:00:00Z'')]), trace = []\<rparr>
       ''example.com'' = (Some (JStr ''sig''), Some (JStr ''2030-01-01T00:00:00Z''), Some (JObj [(''backlinks'', JNum 7)])) \<and>
   (Some (JStr ''sig''), Some (JStr ''2030-01-01T00:00:00Z''), Some (JObj [(''backlinks'', JNum 7)])) \<noteq> nulls \<and>
   date_now env0 [] / 1000 < 1893456000"
proof -
  let ?d = "''example.com''"
  let ?s1 = "\<lparr>cache_file = NoFile, trace = []\<rparr>"
  let ?s2 = "\<lparr>cache_file = Unreadable, trace = []\<rparr>"
  let ?c3 = "JObj [(''other.org'', cred_entry ''2030-01-01T00:00:00Z'')]"
  let ?s3 = "\<lparr>cache_file = Parsed ?c3, trace = []\<rparr>"
  let ?c4 = "JObj [(?d, cred_entry ''2020-01-01T00:00:00Z'')]"
  let ?s4 = "\<lparr>cache_file = Parsed ?c4, trace = []\<rparr>"
  let ?c5 = "JObj [(?d, cred_entry ''2030-01-01T00:00:00Z'')]"
  let ?s5 = "\<lparr>cache_file = Parsed ?c5, trace = []\<rparr>"
  have a1: "loadSignatureFromCache env0 ?s1 ?d = nulls"
    using load_absent_unless_valid[of ?s1 env0 ?d] by simp
  have a2: "loadSignatureFromCache env0 ?s2 ?d = nulls"
    using load_absent_unless_valid[of ?s2 env0 ?d] by simp
  have h3: "cache_file ?s3 = Parsed ?c3 \<and> js_opt (Some ?c3) ?d = None"
    by (simp add: js_opt_def)
  have a3: "loadSignatureFromCache env0 ?s3 ?d = nulls"
    using load_absent_unless_valid[of ?s3 env0 ?d] h3 by blast
  have h4: "cache_file ?s4 = Parsed ?c4 \<and> js_opt (Some ?c4) ?d = Some (cred_entry ''2020-01-01T00:00:00Z'')
      \<and> isoToTimestamp env0 (js_opt (Some (cred_entry ''2020-01-01T00:00:00Z'')) ''validUntil'') = Inr (Some 1577836800)
      \<and> \<not> js_lt (date_now env0 (trace ?s4) / 1000) (Some 1577836800)"
    using iso_2020 by (simp add: js_opt_def cred_entry_def js_lt_def env0_def)
  have a4: "loadSignatureFromCache env0 ?s4 ?d = nulls"
    using load_absent_unless_valid[of ?s4 env0 ?d] h4 by blast
  have a5: "loadSignatureFromCache env0 ?s5 ?d
      = (Some (JStr ''sig''), Some (JStr ''2030-01-01T00:00:00Z''), Some (JObj [(''backlinks'', JNum 7)]))"
    using iso_2030 load_try_Parsed[of ?s5 ?c5 ?d "cred_entry ''2030-01-01T00:00:00Z''" env0]
    by (simp add: loadSignatureFromCache_def js_opt_def cred_entry_def js_lt_def env0_def truthy_def)
  have a6: "(Some (JStr ''sig''), Some (JStr ''2030-01-01T00:00:00Z''), Some (JObj [(''backlinks'', JNum 7)])) \<noteq> nulls"
    by (simp add: nulls_def)
  have a7: "date_now env0 [] / 1000 < 1893456000" by (simp add: env0_def)
  from a1 a2 a3 a4 a5 a6 a7 show ?thesis by blast
qed

lemma log_event_simps [simp]:
  "trace (log_event ev s) = trace s @ [ev]"
  "cache_file (log_event ev s) = cache_file s"
  by (simp_all add: log_event_def)

lemma axios_simps [simp]:
  "fst (axios e rq s) = http e (trace s) rq"
  "snd (axios e rq s) = log_event (Http rq) s"
  by (simp_all add: axios_def)

subsection \<open>Saving\<close>











section \<open>Properties of the challenge solver client\<close>

declare poll.simps [simp del]

lemma rounds_simps [simp]:
  "rounds rq 0 = []"
  "rounds rq (Suc n) = Sleep 1000 # Http rq # rounds rq n"
  by (simp_all add: rounds_def)

lemma rounds_snoc: "rounds rq n @ [Sleep 1000, Http rq] = rounds rq (Suc n)"
  by (induction n) simp_all

lemma poll_step_pending:
  assumes "attempts < maxAttempts"
    and "poll_pending (http e (trace s @ [Sleep 1000]) (poll_request apiKey taskId))"
  shows "poll e apiKey taskId attempts s =
           poll e apiKey taskId (attempts + 1)
             (s\<lparr>trace := trace s @ [Sleep 1000, Http (poll_request apiKey taskId)]\<rparr>)"
  using assms
  by (subst poll.simps)
     (auto simp: poll_pending_def axios_def log_event_def Let_def split: http_result.splits)

lemma poll_step_failed:
  assumes "attempts < maxAttempts"
    and "poll_failed (http e (trace s @ [Sleep 1000]) (poll_request apiKey taskId))"
  shows "poll e apiKey taskId attempts s =
           (Inr (Some JNull), s\<lparr>trace := trace s @ [Sleep 1000, Http (poll_request apiKey taskId)]\<rparr>)"
  using assms
  by (subst poll.simps)
     (auto simp: poll_failed_def axios_def log_event_def Let_def split: http_result.splits)

lemma poll_step_ready:
  assumes "attempts < maxAttempts"
    and "poll_ready (http e (trace s @ [Sleep 1000]) (poll_request apiKey taskId))"
  shows "poll e apiKey taskId attempts s =
           (Inr (poll_token (http e (trace s @ [Sleep 1000]) (poll_request apiKey taskId))),
            s\<lparr>trace := trace s @ [Sleep 1000, Http (poll_request apiKey taskId)]\<rparr>)"
  using assms
  by (subst poll.simps)
     (auto simp: poll_ready_def poll_token_def axios_def log_event_def Let_def
        split: http_result.splits)

lemma poll_exhausted: "\<not> attempts < maxAttempts \<Longrightarrow> poll e apiKey taskId attempts s = (Inr (Some JNull), s)"
  by (subst poll.simps) simp

lemma poll_pending_rounds:
  assumes "\<forall>i<n. poll_pending (http e (trace s @ rounds (poll_request apiKey taskId) i @ [Sleep 1000])
                                  (poll_request apiKey taskId))"
    and "attempts + n \<le> maxAttempts"
  shows "poll e apiKey taskId attempts s =
           poll e apiKey taskId (attempts + n)
             (s\<lparr>trace := trace s @ rounds (poll_request apiKey taskId) n\<rparr>)"
  using assms
proof (induction n arbitrary: attempts s)
  case 0
  then show ?case by simp
next
  case (Suc n)
  let ?rq = "poll_request apiKey taskId"
  let ?s' = "s\<lparr>trace := trace s @ [Sleep 1000, Http ?rq]\<rparr>"
  from Suc.prems(1) have p0: "poll_pending (http e (trace s @ [Sleep 1000]) ?rq)"
    by (metis append_Nil rounds_simps(1) zero_less_Suc)
  from Suc.prems(2) have lt: "attempts < maxAttempts" by simp
  have step: "poll e apiKey taskId attempts s = poll e apiKey taskId (attempts + 1) ?s'"
    by (rule poll_step_pending[OF lt p0])
  have pre: "\<forall>i<n. poll_pending (http e (trace ?s' @ rounds ?rq i @ [Sleep 1000]) ?rq)"
  proof (intro allI impI)
    fix i assume "i < n"
    then have "poll_pending (http e (trace s @ rounds ?rq (Suc i) @ [Sleep 1000]) ?rq)"
      using Suc.prems(1) by (meson Suc_mono)
    then show "poll_pending (http e (trace ?s' @ rounds ?rq i @ [Sleep 1000]) ?rq)" by simp
  qed
  from Suc.prems(2) have le: "(attempts + 1) + n \<le> maxAttempts" by simp
  have "poll e apiKey taskId (attempts + 1) ?s' =
          poll e apiKey taskId ((attempts + 1) + n) (?s'\<lparr>trace := trace ?s' @ rounds ?rq n\<rparr>)"
    by (rule Suc.IH[OF pre le])
  with step show ?case by simp
qed

lemma count_rounds:
  "count_list (rounds rq n) (Http rq) = n" "count_list (rounds rq n) (Sleep 1000) = n"
  by (induction n) simp_all

lemma solve_to_poll:
  assumes "truthy (api_key e)"
    and "http e (trace s @ [Call ''getCapsolverToken'']) (create_request (api_key e) siteUrl) = Response code d"
    and "truthy (js_opt d ''taskId'')"
  shows "getCapsolverToken e siteUrl s =
          (case poll e (api_key e) (js_opt d ''taskId'') 0 (s\<lparr>trace := solve_start e siteUrl s\<rparr>) of
             (Inl err, s2) \<Rightarrow> (Some JNull, s2)
           | (Inr token, s2) \<Rightarrow> (token, s2))"
  using assms
  by (simp add: getCapsolverToken_def Let_def axios_def log_event_def solve_start_def)

lemma solve_no_key:
  assumes "\<not> truthy (api_key e)"
  shows "getCapsolverToken e siteUrl s = (Some JNull, s\<lparr>trace := trace s @ [Call ''getCapsolverToken'']\<rparr>)"
  using assms by (simp add: getCapsolverToken_def Let_def log_event_def)

text \<open>
  Claim C5. When neither the configuration nor the environment has a (non-empty) key
  for the solving service, \<open>getCapsolverToken\<close> returns \<open>null\<close> and the run consists of
  its entry alone: no request is sent, neither to create a task nor to poll.
\<close>

theorem solve_without_key:
  "\<not> truthy (config_key e) \<and> \<not> truthy (env_key e) \<longrightarrow>
     getCapsolverToken e siteUrl s =
       (Some JNull, s\<lparr>trace := trace s @ [Call ''getCapsolverToken'']\<rparr>)"
  by (simp add: solve_no_key api_key_def)

text \<open>
  Claim C4, as the code has it. Let a key be configured and the creation of the task
  return a task identifier. If the answers to the first 30 polls are all pending, the
  run is exactly 30 rounds (each a wait of 1000 ms, then one poll) and
  \<open>getCapsolverToken\<close> returns \<open>null\<close>. If the answers to the first \<open>n < 30\<close> polls are
  pending and the next one reports a failure (its status is \<open>failed\<close>, or it carries an
  error indicator and its status is not \<open>ready\<close>), the run ends with that poll, after
  \<open>n + 1\<close> rounds, and the result is \<open>null\<close>. The loop tests an answer for \<open>ready\<close>
  first: if the answers to the first \<open>n < 30\<close> polls are pending and the status of the
  next one is \<open>ready\<close>, the run ends with that poll and the result is the token of that
  answer, whether or not the answer carries an error indicator.
\<close>

theorem solve_polls_thirty_times:
  assumes "truthy (api_key e)"
    and "http e (trace s @ [Call ''getCapsolverToken'']) (create_request (api_key e) siteUrl) = Response code d"
    and "truthy (js_opt d ''taskId'')"
    and "rq = poll_request (api_key e) (js_opt d ''taskId'')"
    and "h = solve_start e siteUrl s"
  shows "((\<forall>i<30. poll_pending (http e (h @ rounds rq i @ [Sleep 1000]) rq)) \<longrightarrow>
            getCapsolverToken e siteUrl s = (Some JNull, s\<lparr>trace := h @ rounds rq 30\<rparr>)
            \<and> count_list (rounds rq 30) (Http rq) = 30
            \<and> count_list (rounds rq 30) (Sleep 1000) = 30) \<and>
         (\<forall>n<30. (\<forall>i<n. poll_pending (http e (h @ rounds rq i @ [Sleep 1000]) rq)) \<and>
                   poll_failed (http e (h @ rounds rq n @ [Sleep 1000]) rq) \<longrightarrow>
            getCapsolverToken e siteUrl s = (Some JNull, s\<lparr>trace := h @ rounds rq (Suc n)\<rparr>)) \<and>
         (\<forall>n<30. (\<forall>i<n. poll_pending (http e (h @ rounds rq i @ [Sleep 1000]) rq)) \<and>
                   poll_ready (http e (h @ rounds rq n @ [Sleep 1000]) rq) \<longrightarrow>
            getCapsolverToken e siteUrl s =
              (poll_token (http e (h @ rounds rq n @ [Sleep 1000]) rq),
               s\<lparr>trace := h @ rounds rq (Suc n)\<rparr>))"
proof (intro conjI allI impI)
  let ?s0 = "s\<lparr>trace := h\<rparr>"
  assume all: "\<forall>i<30. poll_pending (http e (h @ rounds rq i @ [Sleep 1000]) rq)"
  have "poll e (api_key e) (js_opt d ''taskId'') 0 ?s0 =
          poll e (api_key e) (js_opt d ''taskId'') (0 + 30) (?s0\<lparr>trace := trace ?s0 @ rounds rq 30\<rparr>)"
    unfolding assms(4)
    by (rule poll_pending_rounds) (use all assms(4) in \<open>simp_all add: maxAttempts_def\<close>)
  also have "\<dots> = (Inr (Some JNull), ?s0\<lparr>trace := trace ?s0 @ rounds rq 30\<rparr>)"
    by (rule poll_exhausted) (simp add: maxAttempts_def)
  finally show "getCapsolverToken e siteUrl s = (Some JNull, s\<lparr>trace := h @ rounds rq 30\<rparr>)"
    using solve_to_poll[OF assms(1,2,3)] assms(5) by simp
next
  show "count_list (rounds rq 30) (Http rq) = 30" by (rule count_rounds)
next
  show "count_list (rounds rq 30) (Sleep 1000) = 30" by (rule count_rounds)
next
  fix n :: nat
  let ?s0 = "s\<lparr>trace := h\<rparr>"
  assume n: "n < 30"
  assume "(\<forall>i<n. poll_pending (http e (h @ rounds rq i @ [Sleep 1000]) rq)) \<and>
                   poll_failed (http e (h @ rounds rq n @ [Sleep 1000]) rq)"
  then have pend: "\<forall>i<n. poll_pending (http e (h @ rounds rq i @ [Sleep 1000]) rq)"
    and fail: "poll_failed (http e (h @ rounds rq n @ [Sleep 1000]) rq)" by auto
  let ?sn = "?s0\<lparr>trace := trace ?s0 @ rounds rq n\<rparr>"
  have "poll e (api_key e) (js_opt d ''taskId'') 0 ?s0 =
          poll e (api_key e) (js_opt d ''taskId'') (0 + n) ?sn"
    unfolding assms(4)
    by (rule poll_pending_rounds) (use pend n assms(4) in \<open>simp_all add: maxAttempts_def\<close>)
  also have "\<dots> = (Inr (Some JNull), ?sn\<lparr>trace := trace ?sn @ [Sleep 1000, Http rq]\<rparr>)"
    unfolding assms(4)
    by (rule poll_step_failed) (use fail n assms(4) in \<open>simp_all add: maxAttempts_def\<close>)
  finally show "getCapsolverToken e siteUrl s = (Some JNull, s\<lparr>trace := h @ rounds rq (Suc n)\<rparr>)"
    using solve_to_poll[OF assms(1,2,3)] assms(5) by (simp add: rounds_snoc del: rounds_simps)
next
  fix n :: nat
  let ?s0 = "s\<lparr>trace := h\<rparr>"
  assume n: "n < 30"
  assume "(\<forall>i<n. poll_pending (http e (h @ rounds rq i @ [Sleep 1000]) rq)) \<and>
                   poll_ready (http e (h @ rounds rq n @ [Sleep 1000]) rq)"
  then have pend: "\<forall>i<n. poll_pending (http e (h @ rounds rq i @ [Sleep 1000]) rq)"
    and rdy: "poll_ready (http e (h @ rounds rq n @ [Sleep 1000]) rq)" by auto
  let ?sn = "?s0\<lparr>trace := trace ?s0 @ rounds rq n\<rparr>"
  have tr: "trace ?sn @ [Sleep 1000] = h @ rounds rq n @ [Sleep 1000]" by simp
  have "poll e (api_key e) (js_opt d ''taskId'') 0 ?s0 =
          poll e (api_key e) (js_opt d ''taskId'') (0 + n) ?sn"
    unfolding assms(4)
    by (rule poll_pending_rounds) (use pend n assms(4) in \<open>simp_all add: maxAttempts_def\<close>)
  also have "\<dots> = (Inr (poll_token (http e (trace ?sn @ [Sleep 1000]) rq)),
                     ?sn\<lparr>trace := trace ?sn @ [Sleep 1000, Http rq]\<rparr>)"
    unfolding assms(4)
    by (rule poll_step_ready) (use rdy n assms(4) in \<open>simp_all add: maxAttempts_def\<close>)
  finally show "getCapsolverToken e siteUrl s =
              (poll_token (http e (h @ rounds rq n @ [Sleep 1000]) rq),
               s\<lparr>trace := h @ rounds rq (Suc n)\<rparr>)"
    using solve_to_poll[OF assms(1,2,3)] assms(5) by (simp add: rounds_snoc del: rounds_simps)
qed

lemma length_rounds [simp]: "length (rounds rq n) = 2 * n"
  by (induction n) simp_all

lemma fixture_polls [simp]:
  "poll_pending processing" "poll_failed task_failed"
  by (simp_all add: poll_pending_def poll_failed_def processing_def task_failed_def js_opt_def truthy_def)

lemma create_neq_poll [simp]: "poll_request k t \<noteq> create_request k' u"
  by (simp add: poll_request_def create_request_def)

text \<open>
  Instances: a world without a key; a solver that never finishes; a solver that fails at
  the third poll; a solver that solves the task at the second poll.
\<close>

theorem solve_without_key_witness:
  "getCapsolverToken env_nokey ''https://ahrefs.com/x'' fresh =
     (Some JNull, fresh\<lparr>trace := [Call ''getCapsolverToken'']\<rparr>)"
proof -
  have "\<not> truthy (config_key env_nokey) \<and> \<not> truthy (env_key env_nokey)"
    by (simp add: env_nokey_def env0_def truthy_def)
  with solve_without_key[of env_nokey "''https://ahrefs.com/x''" fresh]
  show ?thesis by (simp add: fresh_def)
qed

theorem solve_polls_thirty_times_witness:
  "getCapsolverToken env_pending ''https://ahrefs.com/x'' fresh =
     (Some JNull, fresh\<lparr>trace := solve_start env_pending ''https://ahrefs.com/x'' fresh @
        rounds (poll_request (Some (JStr ''CAP-KEY'')) (Some (JStr ''task-1''))) 30\<rparr>) \<and>
   getCapsolverToken env_failing ''https://ahrefs.com/x'' fresh =
     (Some JNull, fresh\<lparr>trace := solve_start env_failing ''https://ahrefs.com/x'' fresh @
        rounds (poll_request (Some (JStr ''CAP-KEY'')) (Some (JStr ''task-1''))) 3\<rparr>) \<and>
   getCapsolverToken env_second ''https://ahrefs.com/x'' fresh =
     (Some (JStr ''token-1''), fresh\<lparr>trace := solve_start env_second ''https://ahrefs.com/x'' fresh @
        rounds (poll_request (Some (JStr ''CAP-KEY'')) (Some (JStr ''task-1''))) 2\<rparr>)"
proof -
  let ?u = "''https://ahrefs.com/x''"
  let ?key = "Some (JStr ''CAP-KEY'')"
  let ?d = "Some (JObj [(''errorId'', JNum 0), (''taskId'', JStr ''task-1'')])"
  let ?rq = "poll_request ?key (Some (JStr ''task-1''))"
  have k1: "api_key env_pending = ?key" "api_key env_failing = ?key" "api_key env_second = ?key"
    by (simp_all add: api_key_def env_pending_def env_failing_def env_second_def env0_def truthy_def)
  have hs: "http env_second = http_second" by (simp add: env_second_def)
  have hp: "http env_pending = http_pending" by (simp add: env_pending_def)
  have hf: "http env_failing = http_failing" by (simp add: env_failing_def)
  have t: "truthy ?key" by (simp add: truthy_def)
  have id: "js_opt ?d ''taskId'' = Some (JStr ''task-1'')" by (simp add: js_opt_def)
  have tid: "truthy (js_opt ?d ''taskId'')" by (simp add: id truthy_def)
  have c1: "http env_pending (trace fresh @ [Call ''getCapsolverToken'']) (create_request (api_key env_pending) ?u)
              = Response 200 ?d"
    unfolding k1 by (simp add: env_pending_def http_pending_def created_def)
  have c2: "http env_failing (trace fresh @ [Call ''getCapsolverToken'']) (create_request (api_key env_failing) ?u)
              = Response 200 ?d"
    unfolding k1 by (simp add: env_failing_def http_failing_def created_def)
  have len: "length (solve_start env_failing ?u fresh) = 2"
    by (simp add: solve_start_def fresh_def)
  have p1: "\<forall>i<30. poll_pending (http env_pending
              (solve_start env_pending ?u fresh @ rounds ?rq i @ [Sleep 1000]) ?rq)"
    by (simp add: hp http_pending_def)
  have p2: "(\<forall>i<2. poll_pending (http env_failing
              (solve_start env_failing ?u fresh @ rounds ?rq i @ [Sleep 1000]) ?rq)) \<and>
            poll_failed (http env_failing
              (solve_start env_failing ?u fresh @ rounds ?rq 2 @ [Sleep 1000]) ?rq)"
    unfolding hf by (simp add: http_failing_def len)
  have r1: "?rq = poll_request (api_key env_pending) (js_opt ?d ''taskId'')" by (simp add: k1 id)
  have r2: "?rq = poll_request (api_key env_failing) (js_opt ?d ''taskId'')" by (simp add: k1 id)
  from solve_polls_thirty_times[of env_pending fresh ?u 200 ?d ?rq "solve_start env_pending ?u fresh"]
    t tid c1 r1 p1 k1
  have a: "getCapsolverToken env_pending ?u fresh =
     (Some JNull, fresh\<lparr>trace := solve_start env_pending ?u fresh @ rounds ?rq 30\<rparr>)"
    by simp
  from solve_polls_thirty_times[of env_failing fresh ?u 200 ?d ?rq "solve_start env_failing ?u fresh"]
    t tid c2 r2 k1
  have "\<forall>n<30. (\<forall>i<n. poll_pending (http env_failing
              (solve_start env_failing ?u fresh @ rounds ?rq i @ [Sleep 1000]) ?rq)) \<and>
            poll_failed (http env_failing
              (solve_start env_failing ?u fresh @ rounds ?rq n @ [Sleep 1000]) ?rq) \<longrightarrow>
         getCapsolverToken env_failing ?u fresh =
           (Some JNull, fresh\<lparr>trace := solve_start env_failing ?u fresh @ rounds ?rq (Suc n)\<rparr>)"
    by simp
  then have "2 < (30::nat) \<longrightarrow>
        (\<forall>i<2. poll_pending (http env_failing
              (solve_start env_failing ?u fresh @ rounds ?rq i @ [Sleep 1000]) ?rq)) \<and>
            poll_failed (http env_failing
              (solve_start env_failing ?u fresh @ rounds ?rq 2 @ [Sleep 1000]) ?rq) \<longrightarrow>
         getCapsolverToken env_failing ?u fresh =
           (Some JNull, fresh\<lparr>trace := solve_start env_failing ?u fresh @ rounds ?rq (Suc 2)\<rparr>)"
    by (rule spec)
  with p2 have b: "getCapsolverToken env_failing ?u fresh =
           (Some JNull, fresh\<lparr>trace := solve_start env_failing ?u fresh @ rounds ?rq 3\<rparr>)"
    by (simp add: eval_nat_numeral)
  have c3: "http env_second (trace fresh @ [Call ''getCapsolverToken'']) (create_request (api_key env_second) ?u)
              = Response 200 ?d"
    unfolding k1 by (simp add: env_second_def http_second_def created_def)
  have len3: "length (solve_start env_second ?u fresh) = 2"
    by (simp add: solve_start_def fresh_def)
  have p3: "(\<forall>i<1. poll_pending (http env_second
              (solve_start env_second ?u fresh @ rounds ?rq i @ [Sleep 1000]) ?rq)) \<and>
            poll_ready (http env_second
              (solve_start env_second ?u fresh @ rounds ?rq 1 @ [Sleep 1000]) ?rq)"
    unfolding hs by (simp add: http_second_def len3 poll_ready_def ready_def js_opt_def)
  have tk: "poll_token (http env_second
              (solve_start env_second ?u fresh @ rounds ?rq 1 @ [Sleep 1000]) ?rq) = Some (JStr ''token-1'')"
    unfolding hs by (simp add: http_second_def len3 poll_token_def ready_def js_opt_def)
  have r3: "?rq = poll_request (api_key env_second) (js_opt ?d ''taskId'')" by (simp add: k1 id)
  from solve_polls_thirty_times[of env_second fresh ?u 200 ?d ?rq "solve_start env_second ?u fresh"]
    t tid c3 r3 k1
  have "\<forall>n<30. (\<forall>i<n. poll_pending (http env_second
              (solve_start env_second ?u fresh @ rounds ?rq i @ [Sleep 1000]) ?rq)) \<and>
            poll_ready (http env_second
              (solve_start env_second ?u fresh @ rounds ?rq n @ [Sleep 1000]) ?rq) \<longrightarrow>
         getCapsolverToken env_second ?u fresh =
           (poll_token (http env_second
              (solve_start env_second ?u fresh @ rounds ?rq n @ [Sleep 1000]) ?rq),
            fresh\<lparr>trace := solve_start env_second ?u fresh @ rounds ?rq (Suc n)\<rparr>)"
    by simp
  then have "1 < (30::nat) \<longrightarrow>
        (\<forall>i<1. poll_pending (http env_second
              (solve_start env_second ?u fresh @ rounds ?rq i @ [Sleep 1000]) ?rq)) \<and>
            poll_ready (http env_second
              (solve_start env_second ?u fresh @ rounds ?rq 1 @ [Sleep 1000]) ?rq) \<longrightarrow>
         getCapsolverToken env_second ?u fresh =
           (poll_token (http env_second
              (solve_start env_second ?u fresh @ rounds ?rq 1 @ [Sleep 1000]) ?rq),
            fresh\<lparr>trace := solve_start env_second ?u fresh @ rounds ?rq (Suc 1)\<rparr>)"
    by (rule spec)
  with p3 tk have c: "getCapsolverToken env_second ?u fresh =
           (Some (JStr ''token-1''), fresh\<lparr>trace := solve_start env_second ?u fresh @ rounds ?rq 2\<rparr>)"
    by (simp add: eval_nat_numeral)
  from a b c show ?thesis by simp
qed

subsection \<open>A solver that solves at the first poll\<close>

lemma request_url_simps [simp]:
  "request_url (create_request k u) = ''https://api.capsolver.com/createTask''"
  "request_url (poll_request k t) = ''https://api.capsolver.com/getTaskResult''"
  "request_url (overview_request tok dm) = ''https://ahrefs.com/v4/stGetFreeBacklinksOverview''"
  "request_url (list_request sg vu dm) = ''https://ahrefs.com/v4/stGetFreeBacklinksList''"
  "request_url (keywordDifficulty_request tok c kw enc) =
     ''https://ahrefs.com/v4/stGetFreeSerpOverviewForKeywordDifficultyChecker''"
  "request_url (checkTraffic_request tok dm m c) = ''https://ahrefs.com/v4/stGetFreeTrafficOverview''"
  by (simp_all add: request_url_def create_request_def poll_request_def overview_request_def
      list_request_def keywordDifficulty_request_def checkTraffic_request_def)

lemma env_world_simps [simp]:
  "http (env_world ov other) = http_world ov other"
  "api_key (env_world ov other) = Some (JStr ''CAP-KEY'')"
  "encode_uri (env_world ov other) = Some"
  "write_file (env_world ov other) = (\<lambda>h c. None)"
  "date_now (env_world ov other) = (\<lambda>h. 1700000000000)"
  by (simp_all add: env_world_def env0_def api_key_def truthy_def)

lemma http_world_simps [simp]:
  "http_world ov other h (create_request k u) = created"
  "http_world ov other h (poll_request k t) = ready"
  "http_world ov other h (overview_request tok dm) = ov"
  "http_world ov other h (list_request sg vu dm) = other"
  "http_world ov other h (keywordDifficulty_request tok c kw enc) = other"
  "http_world ov other h (checkTraffic_request tok dm m c) = other"
  by (simp_all add: http_world_def)

lemma solve_ready:
  assumes "truthy (api_key e)"
    and "http e (trace s @ [Call ''getCapsolverToken'']) (create_request (api_key e) siteUrl) = Response code d"
    and "truthy (js_opt d ''taskId'')"
    and "http e (solve_start e siteUrl s @ [Sleep 1000]) (poll_request (api_key e) (js_opt d ''taskId''))
           = Response code' d'"
    and "js_opt d' ''status'' = Some (JStr ''ready'')"
  shows "getCapsolverToken e siteUrl s =
           (js_opt (js_opt d' ''solution'') ''token'',
            s\<lparr>trace := solve_start e siteUrl s @
                 [Sleep 1000, Http (poll_request (api_key e) (js_opt d ''taskId''))]\<rparr>)"
proof -
  have "poll e (api_key e) (js_opt d ''taskId'') 0 (s\<lparr>trace := solve_start e siteUrl s\<rparr>) =
          (Inr (js_opt (js_opt d' ''solution'') ''token''),
           s\<lparr>trace := solve_start e siteUrl s @
                 [Sleep 1000, Http (poll_request (api_key e) (js_opt d ''taskId''))]\<rparr>)"
    using assms(4,5)
    by (subst poll.simps) (simp add: maxAttempts_def axios_def log_event_def Let_def)
  with solve_to_poll[OF assms(1,2,3)] show ?thesis by simp
qed

lemma solve_in_world:
  "getCapsolverToken (env_world ov other) siteUrl s =
     (Some (JStr ''token-1''), s\<lparr>trace := trace s @ solved_trace siteUrl\<rparr>)"
proof -
  let ?e = "env_world ov other"
  let ?d = "Some (JObj [(''errorId'', JNum 0), (''taskId'', JStr ''task-1'')])"
  let ?d' = "Some (JObj [(''errorId'', JNum 0), (''status'', JStr ''ready''),
                                     (''solution'', JObj [(''token'', JStr ''token-1'')])])"
  have 1: "truthy (api_key ?e)" by (simp add: truthy_def)
  have 2: "http ?e (trace s @ [Call ''getCapsolverToken'']) (create_request (api_key ?e) siteUrl) = Response 200 ?d"
    by (simp add: created_def)
  have id: "js_opt ?d ''taskId'' = Some (JStr ''task-1'')" by (simp add: js_opt_def)
  have 3: "truthy (js_opt ?d ''taskId'')" by (simp add: id truthy_def)
  have 4: "http ?e (solve_start ?e siteUrl s @ [Sleep 1000]) (poll_request (api_key ?e) (js_opt ?d ''taskId''))
           = Response 200 ?d'"
    by (simp add: ready_def)
  have 5: "js_opt ?d' ''status'' = Some (JStr ''ready'')" by (simp add: js_opt_def)
  have 6: "js_opt (js_opt ?d' ''solution'') ''token'' = Some (JStr ''token-1'')" by (simp add: js_opt_def)
  from solve_ready[OF 1 2 3 4 5] show ?thesis
    unfolding 6 id by (simp add: solve_start_def solved_trace_def)
qed

text \<open>
  Claim C4 as stated fails on an answer that carries an error indicator and the status
  \<open>ready\<close>: the first poll is answered with \<open>{errorId: 1, status: 'ready', solution:
  {token: 'token-1'}}\<close>, and \<open>getCapsolverToken\<close> returns the token, not \<open>null\<close>.
\<close>

theorem solve_ready_with_error_counterexample:
  "http env_flagged (solve_start env_flagged ''https://ahrefs.com/x'' fresh @ [Sleep 1000])
      (poll_request (Some (JStr ''CAP-KEY'')) (Some (JStr ''task-1''))) = Response 200 ready_flagged \<and>
   truthy (js_opt ready_flagged ''errorId'') \<and>
   js_opt ready_flagged ''status'' = Some (JStr ''ready'') \<and>
   getCapsolverToken env_flagged ''https://ahrefs.com/x'' fresh =
     (Some (JStr ''token-1''),
      fresh\<lparr>trace := solve_start env_flagged ''https://ahrefs.com/x'' fresh @
         rounds (poll_request (Some (JStr ''CAP-KEY'')) (Some (JStr ''task-1''))) 1\<rparr>)"
proof -
  let ?u = "''https://ahrefs.com/x''"
  let ?key = "Some (JStr ''CAP-KEY'')"
  let ?d = "Some (JObj [(''errorId'', JNum 0), (''taskId'', JStr ''task-1'')])"
  let ?rq = "poll_request ?key (Some (JStr ''task-1''))"
  have k: "api_key env_flagged = ?key"
    by (simp add: api_key_def env_flagged_def env0_def truthy_def)
  have h: "http env_flagged = http_flagged" by (simp add: env_flagged_def)
  have 1: "truthy (api_key env_flagged)" by (simp add: k truthy_def)
  have 2: "http env_flagged (trace fresh @ [Call ''getCapsolverToken''])
             (create_request (api_key env_flagged) ?u) = Response 200 ?d"
    unfolding k by (simp add: h http_flagged_def created_def)
  have id: "js_opt ?d ''taskId'' = Some (JStr ''task-1'')" by (simp add: js_opt_def)
  have 3: "truthy (js_opt ?d ''taskId'')" by (simp add: id truthy_def)
  have 4: "http env_flagged (solve_start env_flagged ?u fresh @ [Sleep 1000])
             (poll_request (api_key env_flagged) (js_opt ?d ''taskId'')) = Response 200 ready_flagged"
    unfolding k id by (simp add: h http_flagged_def)
  have 5: "js_opt ready_flagged ''status'' = Some (JStr ''ready'')"
    by (simp add: ready_flagged_def js_opt_def)
  have 6: "js_opt (js_opt ready_flagged ''solution'') ''token'' = Some (JStr ''token-1'')"
    by (simp add: ready_flagged_def js_opt_def)
  have 7: "truthy (js_opt ready_flagged ''errorId'')"
    by (simp add: ready_flagged_def js_opt_def truthy_def)
  from solve_ready[OF 1 2 3 4 5]
  have "getCapsolverToken env_flagged ?u fresh =
     (Some (JStr ''token-1''), fresh\<lparr>trace := solve_start env_flagged ?u fresh @ rounds ?rq 1\<rparr>)"
    unfolding 6 k id by simp
  with 4 5 7 show ?thesis unfolding k id by simp
qed


section \<open>Properties of the signature exchange client\<close>

lemma mint_unfold:
  "getSignatureAndOverview e token domain s =
     (case mint_response e token domain s of
        Throws \<Rightarrow> (nulls, mint_start token domain s)
      | Response status d \<Rightarrow>
          if status \<noteq> 200 then (nulls, mint_start token domain s)
          else (case d of
                  Some (JArr xs) \<Rightarrow>
                    if 1 < length xs \<and> truthy (signature_of (xs ! 1)) \<and> truthy (validUntil_of (xs ! 1))
                    then ((signature_of (xs ! 1), validUntil_of (xs ! 1), js_opt (Some (xs ! 1)) ''data''),
                          snd (saveSignatureToCache e (signature_of (xs ! 1)) (validUntil_of (xs ! 1))
                                 (js_opt (Some (xs ! 1)) ''data'') domain (mint_start token domain s)))
                    else (nulls, mint_start token domain s)
                | _ \<Rightarrow> (nulls, mint_start token domain s)))"
  by (simp add: getSignatureAndOverview_def Let_def axios_def log_event_def mint_start_def
      mint_response_def signature_of_def validUntil_of_def
      split: http_result.splits option.splits json.splits prod.splits)

lemma truthy_not_null: "truthy v \<Longrightarrow> v \<noteq> Some JNull"
  by (auto simp: truthy_def)

text \<open>
  Claim C2, as the code has it. \<open>getSignatureAndOverview\<close> returns the credential
  (signature, \<open>validUntil\<close>, overview data) exactly when the platform answers with status
  200 and a body that is an array of length greater than 1 whose second element has a
  truthy \<open>signedInput.signature\<close> and a truthy \<open>signedInput.input.validUntil\<close>. In that
  case the state it leaves is the one \<open>saveSignatureToCache\<close> leaves for this credential:
  the credential is saved before it is returned. In every other case (a failed request,
  any status other than 200, another shape, a missing or falsy signature or
  \<open>validUntil\<close>) it returns \<open>[null, null, null]\<close>, and nothing is saved. The function has
  no exceptional result.
\<close>

theorem mint_returns_credential_iff:
  "(\<forall>xs. mint_response e token domain s = Response 200 (Some (JArr xs)) \<and> 1 < length xs \<and>
          truthy (signature_of (xs ! 1)) \<and> truthy (validUntil_of (xs ! 1)) \<longrightarrow>
      getSignatureAndOverview e token domain s =
        ((signature_of (xs ! 1), validUntil_of (xs ! 1), js_opt (Some (xs ! 1)) ''data''),
         snd (saveSignatureToCache e (signature_of (xs ! 1)) (validUntil_of (xs ! 1))
                (js_opt (Some (xs ! 1)) ''data'') domain (mint_start token domain s))) \<and>
      fst (getSignatureAndOverview e token domain s) \<noteq> nulls) \<and>
   (\<not> (\<exists>xs. mint_response e token domain s = Response 200 (Some (JArr xs)) \<and> 1 < length xs \<and>
          truthy (signature_of (xs ! 1)) \<and> truthy (validUntil_of (xs ! 1))) \<longrightarrow>
      getSignatureAndOverview e token domain s = (nulls, mint_start token domain s))"
proof (intro conjI allI impI)
  fix xs
  assume a: "mint_response e token domain s = Response 200 (Some (JArr xs)) \<and> 1 < length xs \<and>
          truthy (signature_of (xs ! 1)) \<and> truthy (validUntil_of (xs ! 1))"
  then show r: "getSignatureAndOverview e token domain s =
        ((signature_of (xs ! 1), validUntil_of (xs ! 1), js_opt (Some (xs ! 1)) ''data''),
         snd (saveSignatureToCache e (signature_of (xs ! 1)) (validUntil_of (xs ! 1))
                (js_opt (Some (xs ! 1)) ''data'') domain (mint_start token domain s)))"
    by (simp add: mint_unfold)
  from a have "signature_of (xs ! 1) \<noteq> Some JNull" by (simp add: truthy_not_null)
  with r show "fst (getSignatureAndOverview e token domain s) \<noteq> nulls"
    by (auto simp: nulls_def)
next
  assume n: "\<not> (\<exists>xs. mint_response e token domain s = Response 200 (Some (JArr xs)) \<and> 1 < length xs \<and>
          truthy (signature_of (xs ! 1)) \<and> truthy (validUntil_of (xs ! 1)))"
  show "getSignatureAndOverview e token domain s = (nulls, mint_start token domain s)"
  proof (cases "mint_response e token domain s")
    case Throws
    then show ?thesis by (simp add: mint_unfold)
  next
    case (Response status d)
    show ?thesis
    proof (cases "status = 200")
      case False
      with Response show ?thesis by (simp add: mint_unfold)
    next
      case True
      show ?thesis
      proof (cases "\<exists>xs. d = Some (JArr xs)")
        case False
        with Response True show ?thesis
          by (simp add: mint_unfold split: option.splits json.splits)
      next
        case True
        then obtain xs where xs: "d = Some (JArr xs)" by blast
        with n Response \<open>status = 200\<close>
        have "\<not> (1 < length xs \<and> truthy (signature_of (xs ! 1)) \<and> truthy (validUntil_of (xs ! 1)))"
          by blast
        with Response \<open>status = 200\<close> xs show ?thesis by (auto simp add: mint_unfold)
      qed
    qed
  qed
qed

text \<open>
  Claim C2 as stated fails on a status of the 2xx class other than 200: the body is an
  array of length 2 whose second element has the signature and \<open>validUntil\<close>, the status
  is 201, and the function returns \<open>[null, null, null]\<close> without saving.
\<close>

theorem mint_status_201_counterexample:
  "mint_response env_201 (Some (JStr ''token'')) ''example.com'' fresh =
      Response 201 (Some (JArr overview_body)) \<and>
   1 < length overview_body \<and>
   signature_of (overview_body ! 1) = Some (JStr ''sig-1'') \<and>
   validUntil_of (overview_body ! 1) = Some (JStr ''2030-01-01T00:00:00Z'') \<and>
   getSignatureAndOverview env_201 (Some (JStr ''token'')) ''example.com'' fresh =
      (nulls, mint_start (Some (JStr ''token'')) ''example.com'' fresh)"
proof -
  have r: "mint_response env_201 (Some (JStr ''token'')) ''example.com'' fresh =
      Response 201 (Some (JArr overview_body))"
    by (simp add: mint_response_def env_201_def)
  have "getSignatureAndOverview env_201 (Some (JStr ''token'')) ''example.com'' fresh =
      (nulls, mint_start (Some (JStr ''token'')) ''example.com'' fresh)"
    by (simp add: mint_unfold r)
  with r show ?thesis
    by (simp add: overview_body_def signature_of_def validUntil_of_def js_opt_def)
qed

text \<open>
  Instances of claim C2: the platform answers with a signed input and status 200; the
  platform answers with an array of length 1.
\<close>

theorem mint_returns_credential_iff_witness:
  "getSignatureAndOverview (env_world (Response 200 (Some (JArr overview_body))) Throws)
       (Some (JStr ''token-1'')) ''example.com'' fresh =
     ((Some (JStr ''sig-1''), Some (JStr ''2030-01-01T00:00:00Z''), Some (JObj [(''domainRating'', JNum 55)])),
      snd (saveSignatureToCache (env_world (Response 200 (Some (JArr overview_body))) Throws)
             (Some (JStr ''sig-1'')) (Some (JStr ''2030-01-01T00:00:00Z''))
             (Some (JObj [(''domainRating'', JNum 55)])) ''example.com''
             (mint_start (Some (JStr ''token-1'')) ''example.com'' fresh))) \<and>
   getSignatureAndOverview (env_world (Response 200 (Some (JArr [JStr ''Ok'']))) Throws)
       (Some (JStr ''token-1'')) ''example.com'' fresh =
     (nulls, mint_start (Some (JStr ''token-1'')) ''example.com'' fresh)"
proof -
  let ?tok = "Some (JStr ''token-1'')"
  let ?e1 = "env_world (Response 200 (Some (JArr overview_body))) Throws"
  let ?e2 = "env_world (Response 200 (Some (JArr [JStr ''Ok'']))) Throws"
  have sg: "signature_of (overview_body ! 1) = Some (JStr ''sig-1'')"
    and vu: "validUntil_of (overview_body ! 1) = Some (JStr ''2030-01-01T00:00:00Z'')"
    and ov: "js_opt (Some (overview_body ! 1)) ''data'' = Some (JObj [(''domainRating'', JNum 55)])"
    by (simp_all add: overview_body_def signature_of_def validUntil_of_def js_opt_def)
  have h1: "mint_response ?e1 ?tok ''example.com'' fresh = Response 200 (Some (JArr overview_body)) \<and>
          1 < length overview_body \<and>
          truthy (signature_of (overview_body ! 1)) \<and> truthy (validUntil_of (overview_body ! 1))"
    unfolding sg vu by (simp add: mint_response_def truthy_def overview_body_def)
  have h2: "\<not> (\<exists>xs. mint_response ?e2 ?tok ''example.com'' fresh = Response 200 (Some (JArr xs)) \<and>
          1 < length xs \<and> truthy (signature_of (xs ! 1)) \<and> truthy (validUntil_of (xs ! 1)))"
    by (auto simp: mint_response_def)
  from mint_returns_credential_iff[of ?e1 ?tok "''example.com''" fresh] h1
  have a: "getSignatureAndOverview ?e1 ?tok ''example.com'' fresh =
        ((signature_of (overview_body ! 1), validUntil_of (overview_body ! 1),
          js_opt (Some (overview_body ! 1)) ''data''),
         snd (saveSignatureToCache ?e1 (signature_of (overview_body ! 1)) (validUntil_of (overview_body ! 1))
                (js_opt (Some (overview_body ! 1)) ''data'') ''example.com''
                (mint_start ?tok ''example.com'' fresh)))"
    by blast
  from mint_returns_credential_iff[of ?e2 ?tok "''example.com''" fresh] h2
  have b: "getSignatureAndOverview ?e2 ?tok ''example.com'' fresh =
     (nulls, mint_start ?tok ''example.com'' fresh)"
    by blast
  from a b show ?thesis unfolding sg vu ov by simp
qed

lemma readable_store_mint_start [simp]:
  "readable_store (mint_start token domain s) = readable_store s"
  "trace (mint_start token domain s) = trace s @ [Call ''getSignatureAndOverview'', Http (overview_request token domain)]"
  "cache_file (mint_start token domain s) = cache_file s"
  by (simp_all add: readable_store_def mint_start_def)


section \<open>Properties of the keyword-difficulty and traffic normalisations\<close>

lemma not_tagged_ok:
  assumes "\<not> tagged_ok d"
  shows "(\<forall>xs. d = Some (JArr xs) \<longrightarrow> length xs < 2 \<or> xs ! 0 \<noteq> JStr ''Ok'')"
proof (intro allI impI)
  fix xs assume d: "d = Some (JArr xs)"
  show "length xs < 2 \<or> xs ! 0 \<noteq> JStr ''Ok''"
  proof (cases "length xs < 2")
    case False
    then have "xs \<noteq> []" by auto
    then have "hd xs = xs ! 0" by (simp add: hd_conv_nth)
    with assms d False show ?thesis by (simp add: tagged_ok_def)
  qed simp
qed

lemma kd_not_ok:
  assumes "\<not> tagged_ok d"
  shows "keywordDifficulty_result keyword d = Inl (invalid_format ''keyword'' keyword)"
proof (cases "\<exists>xs. d = Some (JArr xs)")
  case True
  then obtain xs where xs: "d = Some (JArr xs)" by blast
  with not_tagged_ok[OF assms] have "length xs < 2 \<or> xs ! 0 \<noteq> JStr ''Ok''" by blast
  with xs show ?thesis
    by (simp add: keywordDifficulty_result_def invalid_format_def Let_def)
next
  case False
  then show ?thesis
    by (simp add: keywordDifficulty_result_def invalid_format_def Let_def
        split: option.splits json.splits)
qed

lemma traffic_not_ok:
  assumes "\<not> tagged_ok d"
  shows "checkTraffic_result domainOrUrl d = Inl (invalid_format ''domain'' domainOrUrl)"
proof (cases "\<exists>xs. d = Some (JArr xs)")
  case True
  then obtain xs where xs: "d = Some (JArr xs)" by blast
  with not_tagged_ok[OF assms] have "length xs < 2 \<or> xs ! 0 \<noteq> JStr ''Ok''" by blast
  with xs show ?thesis
    by (simp add: checkTraffic_result_def invalid_format_def Let_def)
next
  case False
  then show ?thesis
    by (simp add: checkTraffic_result_def invalid_format_def Let_def
        split: option.splits json.splits)
qed

lemma rethrow_invalid [simp]: "rethrow msg (invalid_format what subject) = invalid_format what subject"
  by (simp add: rethrow_def invalid_format_def)

text \<open>
  Claim C6. For every body that is not an array of length at least 2 whose first
  element is \<open>'Ok'\<close>, the format checks of \<open>getKeywordDifficulty\<close> and \<open>checkTraffic\<close>
  throw the error \<open>McpError('Invalid response format from Ahrefs API ...', API_ERROR, 500)\<close>,
  and that error is the result of the whole function whenever the challenge is solved
  and the platform answers with status 200 and such a body: no empty result is returned.
\<close>

theorem invalid_response_is_hard_error:
  "\<not> tagged_ok d \<longrightarrow>
     keywordDifficulty_result keyword d = Inl (invalid_format ''keyword'' keyword) \<and>
     checkTraffic_result domainOrUrl d = Inl (invalid_format ''domain'' domainOrUrl) \<and>
     (\<forall>e country s encoded token s1.
        encode_uri e keyword = Some encoded \<and>
        getCapsolverToken e (keywordDifficulty_site country encoded) s = (token, s1) \<and>
        truthy token \<and>
        http e (trace s1) (keywordDifficulty_request token country keyword encoded) = Response 200 d
        \<longrightarrow> fst (getKeywordDifficulty e keyword country s) = Inl (invalid_format ''keyword'' keyword)) \<and>
     (\<forall>e mode country s token s1.
        getCapsolverToken e (checkTraffic_site domainOrUrl mode) s = (token, s1) \<and>
        truthy token \<and>
        http e (trace s1) (checkTraffic_request token domainOrUrl mode country) = Response 200 d
        \<longrightarrow> fst (checkTraffic e domainOrUrl mode country s) = Inl (invalid_format ''domain'' domainOrUrl))"
proof (intro impI conjI allI)
  assume n: "\<not> tagged_ok d"
  show "keywordDifficulty_result keyword d = Inl (invalid_format ''keyword'' keyword)"
    by (rule kd_not_ok[OF n])
  show "checkTraffic_result domainOrUrl d = Inl (invalid_format ''domain'' domainOrUrl)"
    by (rule traffic_not_ok[OF n])
  { fix e country s encoded token s1
    assume "encode_uri e keyword = Some encoded \<and>
        getCapsolverToken e (keywordDifficulty_site country encoded) s = (token, s1) \<and>
        truthy token \<and>
        http e (trace s1) (keywordDifficulty_request token country keyword encoded) = Response 200 d"
    then show "fst (getKeywordDifficulty e keyword country s) = Inl (invalid_format ''keyword'' keyword)"
      by (simp add: getKeywordDifficulty_def Let_def axios_def kd_not_ok[OF n]) }
  { fix e mode country s token s1
    assume "getCapsolverToken e (checkTraffic_site domainOrUrl mode) s = (token, s1) \<and>
        truthy token \<and>
        http e (trace s1) (checkTraffic_request token domainOrUrl mode country) = Response 200 d"
    then show "fst (checkTraffic e domainOrUrl mode country s) = Inl (invalid_format ''domain'' domainOrUrl)"
      by (simp add: checkTraffic_def Let_def axios_def traffic_not_ok[OF n]) }
qed

text \<open>
  An instance: a body tagged \<open>'Error'\<close>, given to both checks and served by the platform
  to both functions.
\<close>

theorem invalid_response_is_hard_error_witness:
  "keywordDifficulty_result ''seo tools'' bad_body = Inl (invalid_format ''keyword'' ''seo tools'') \<and>
   checkTraffic_result ''example.com'' bad_body = Inl (invalid_format ''domain'' ''example.com'') \<and>
   fst (getKeywordDifficulty (env_world Throws (Response 200 bad_body)) ''seo tools'' ''us'' fresh)
     = Inl (invalid_format ''keyword'' ''seo tools'') \<and>
   fst (checkTraffic (env_world Throws (Response 200 bad_body)) ''example.com'' ''subdomains'' ''None'' fresh)
     = Inl (invalid_format ''domain'' ''example.com'')"
proof -
  let ?e = "env_world Throws (Response 200 bad_body)"
  have n: "\<not> tagged_ok bad_body" by (simp add: tagged_ok_def bad_body_def)
  note th = invalid_response_is_hard_error[of bad_body "''seo tools''" "''example.com''"]
  from th n have a: "keywordDifficulty_result ''seo tools'' bad_body = Inl (invalid_format ''keyword'' ''seo tools'')"
    and b: "checkTraffic_result ''example.com'' bad_body = Inl (invalid_format ''domain'' ''example.com'')"
    by blast+
  have t: "truthy (Some (JStr ''token-1''))" by (simp add: truthy_def)
  let ?s1 = "fresh\<lparr>trace := trace fresh @ solved_trace (keywordDifficulty_site ''us'' ''seo tools'')\<rparr>"
  have h1: "encode_uri ?e ''seo tools'' = Some ''seo tools'' \<and>
        getCapsolverToken ?e (keywordDifficulty_site ''us'' ''seo tools'') fresh = (Some (JStr ''token-1''), ?s1) \<and>
        truthy (Some (JStr ''token-1'')) \<and>
        http ?e (trace ?s1) (keywordDifficulty_request (Some (JStr ''token-1'')) ''us'' ''seo tools'' ''seo tools'')
          = Response 200 bad_body"
    using t by (simp add: solve_in_world)
  from th n have "\<forall>e country s encoded token s1.
        encode_uri e ''seo tools'' = Some encoded \<and>
        getCapsolverToken e (keywordDifficulty_site country encoded) s = (token, s1) \<and>
        truthy token \<and>
        http e (trace s1) (keywordDifficulty_request token country ''seo tools'' encoded) = Response 200 bad_body
        \<longrightarrow> fst (getKeywordDifficulty e ''seo tools'' country s) = Inl (invalid_format ''keyword'' ''seo tools'')"
    by blast
  with h1 have c: "fst (getKeywordDifficulty ?e ''seo tools'' ''us'' fresh) = Inl (invalid_format ''keyword'' ''seo tools'')"
    by blast
  let ?s2 = "fresh\<lparr>trace := trace fresh @ solved_trace (checkTraffic_site ''example.com'' ''subdomains'')\<rparr>"
  have h2: "getCapsolverToken ?e (checkTraffic_site ''example.com'' ''subdomains'') fresh = (Some (JStr ''token-1''), ?s2) \<and>
        truthy (Some (JStr ''token-1'')) \<and>
        http ?e (trace ?s2) (checkTraffic_request (Some (JStr ''token-1'')) ''example.com'' ''subdomains'' ''None'')
          = Response 200 bad_body"
    using t by (simp add: solve_in_world)
  from th n have "\<forall>e mode country s token s1.
        getCapsolverToken e (checkTraffic_site ''example.com'' mode) s = (token, s1) \<and>
        truthy token \<and>
        http e (trace s1) (checkTraffic_request token ''example.com'' mode country) = Response 200 bad_body
        \<longrightarrow> fst (checkTraffic e ''example.com'' mode country s) = Inl (invalid_format ''domain'' ''example.com'')"
    by blast
  with h2 have d: "fst (checkTraffic ?e ''example.com'' ''subdomains'' ''None'' fresh) = Inl (invalid_format ''domain'' ''example.com'')"
    by blast
  from a b c d show ?thesis by blast
qed


section \<open>The tag of the overview response\<close>






section \<open>Properties of the backlinks normalisation\<close>

lemma field_or_defined: "x \<noteq> JNull \<Longrightarrow> field_or (Some x) k d = Inr (js_or (js_prop x k) d)"
  by (simp add: field_or_def js_get_def)

lemma field_or_null: "field_or (Some JNull) k d = Inl TypeError"
  by (simp add: field_or_def js_get_def)

lemma simplifyBacklink_defined:
  "item \<noteq> JNull \<Longrightarrow> simplifyBacklink item = Inr (backlink_fields item)"
  by (simp add: simplifyBacklink_def backlink_fields_def field_or_defined)

lemma map_exn_total:
  "(\<And>x. x \<in> set xs \<Longrightarrow> f x = Inr (g x)) \<Longrightarrow> map_exn f xs = Inr (map g xs)"
  by (induction xs) simp_all

lemma formatBacklinks_unfold:
  "formatBacklinks d =
     (if truthy (backlinks_payload d)
      then (case backlinks_payload d of
              Some (JArr items) \<Rightarrow> map_exn simplifyBacklink items
            | _ \<Rightarrow> Inl TypeError)
      else Inr [])"
proof (cases "\<exists>xs. d = Some (JArr xs)")
  case True
  then obtain xs where "d = Some (JArr xs)" by blast
  then show ?thesis
    by (simp add: formatBacklinks_def backlinks_payload_def truthy_def)
next
  case False
  then show ?thesis
    by (simp add: formatBacklinks_def backlinks_payload_def truthy_def
        split: option.splits json.splits)
qed

lemma js_or_missing [simp]: "js_or None d = d"
  by (simp add: js_or_def)

lemma map_simplifyBacklink:
  "map_exn simplifyBacklink items =
     (if JNull \<in> set items then Inl TypeError else Inr (map backlink_fields items))"
proof (induction items)
  case Nil
  show ?case by simp
next
  case (Cons x items)
  show ?case
  proof (cases "x = JNull")
    case True
    then show ?thesis by (simp add: simplifyBacklink_def field_or_null)
  next
    case False
    with Cons show ?thesis by (auto simp: simplifyBacklink_defined)
  qed
qed

text \<open>
  Claim C7, as the code has it. When no item of the backlinks array is \<open>null\<close>,
  \<open>formatBacklinks\<close> maps every item, in order, to an object with exactly the seven fields
  \<open>anchor, domainRating, title, urlFrom, urlTo, edu, gov\<close>. An item that is a string
  inherits \<open>String.prototype.anchor\<close>, and that function is its \<open>anchor\<close>; for any
  other item a missing \<open>anchor\<close> becomes \<open>''\<close>. For every item a missing \<open>title\<close>,
  \<open>urlFrom\<close> or \<open>urlTo\<close> becomes \<open>''\<close>, a missing \<open>domainRating\<close> becomes 0, a missing
  \<open>edu\<close> or \<open>gov\<close> becomes \<open>false\<close>. When an item is \<open>null\<close>, or when the payload is
  truthy and not an array, the function throws a \<open>TypeError\<close>. For every input that is
  not an array of length greater than 1 with a truthy \<open>topBacklinks.backlinks\<close> in its
  second element, the result is the empty list.
\<close>

theorem backlinks_seven_fields:
  "(\<forall>items. backlinks_payload d = Some (JArr items) \<and> JNull \<notin> set items \<longrightarrow>
      formatBacklinks d = Inr (map backlink_fields items)) \<and>
   (\<forall>items. backlinks_payload d = Some (JArr items) \<and> JNull \<in> set items \<longrightarrow>
      formatBacklinks d = Inl TypeError) \<and>
   (truthy (backlinks_payload d) \<and> (\<forall>items. backlinks_payload d \<noteq> Some (JArr items)) \<longrightarrow>
      formatBacklinks d = Inl TypeError) \<and>
   (\<not> truthy (backlinks_payload d) \<longrightarrow> formatBacklinks d = Inr []) \<and>
   field_names (backlink_fields item) =
      [''anchor'', ''domainRating'', ''title'', ''urlFrom'', ''urlTo'', ''edu'', ''gov''] \<and>
   (\<forall>str. own_prop (backlink_fields (JStr str)) ''anchor'' = Some (JBuiltin ''String.prototype.anchor'')) \<and>
   ((\<forall>str. item \<noteq> JStr str) \<and> own_prop item ''anchor'' = None \<longrightarrow>
      own_prop (backlink_fields item) ''anchor'' = Some (JStr [])) \<and>
   (own_prop item ''domainRating'' = None \<longrightarrow> own_prop (backlink_fields item) ''domainRating'' = Some (JNum 0)) \<and>
   (own_prop item ''title'' = None \<longrightarrow> own_prop (backlink_fields item) ''title'' = Some (JStr [])) \<and>
   (own_prop item ''urlFrom'' = None \<longrightarrow> own_prop (backlink_fields item) ''urlFrom'' = Some (JStr [])) \<and>
   (own_prop item ''urlTo'' = None \<longrightarrow> own_prop (backlink_fields item) ''urlTo'' = Some (JStr [])) \<and>
   (own_prop item ''edu'' = None \<longrightarrow> own_prop (backlink_fields item) ''edu'' = Some (JBool False)) \<and>
   (own_prop item ''gov'' = None \<longrightarrow> own_prop (backlink_fields item) ''gov'' = Some (JBool False))"
proof (intro conjI allI impI)
  fix items
  assume a: "backlinks_payload d = Some (JArr items) \<and> JNull \<notin> set items"
  then show "formatBacklinks d = Inr (map backlink_fields items)"
    by (simp add: formatBacklinks_unfold truthy_def map_simplifyBacklink)
next
  fix items
  assume a: "backlinks_payload d = Some (JArr items) \<and> JNull \<in> set items"
  then show "formatBacklinks d = Inl TypeError"
    by (simp add: formatBacklinks_unfold truthy_def map_simplifyBacklink)
next
  assume a: "truthy (backlinks_payload d) \<and> (\<forall>items. backlinks_payload d \<noteq> Some (JArr items))"
  then show "formatBacklinks d = Inl TypeError"
    by (auto simp: formatBacklinks_unfold split: option.splits json.splits)
next
  assume "\<not> truthy (backlinks_payload d)"
  then show "formatBacklinks d = Inr []" by (simp add: formatBacklinks_unfold)
next
  fix str
  show "own_prop (backlink_fields (JStr str)) ''anchor'' = Some (JBuiltin ''String.prototype.anchor'')"
    by (simp add: backlink_fields_def js_prop_anchor(1) js_or_def)
next
  assume "(\<forall>str. item \<noteq> JStr str) \<and> own_prop item ''anchor'' = None"
  then show "own_prop (backlink_fields item) ''anchor'' = Some (JStr [])"
    by (simp add: backlink_fields_def js_prop_anchor(2))
qed (simp_all add: backlink_fields_def field_names_def)

lemma backlinks_payload_body [simp]: "backlinks_payload (backlinks_body items) = Some (JArr items)"
  by (simp add: backlinks_payload_def backlinks_body_def js_opt_def)

text \<open>
  Claim C7 as stated fails on an item that is \<open>null\<close>: the callback reads
  \<open>backlink.anchor\<close> and throws a \<open>TypeError\<close>, so the array is not mapped at all. It
  also fails on an item that is a string: the item has no \<open>anchor\<close> of its own, and the
  \<open>anchor\<close> of the result is not \<open>''\<close> but the function \<open>String.prototype.anchor\<close>.
\<close>

theorem backlinks_null_item_counterexample:
  "backlinks_payload (backlinks_body [backlink_full, JNull]) = Some (JArr [backlink_full, JNull]) \<and>
   formatBacklinks (backlinks_body [backlink_full, JNull]) = Inl TypeError \<and>
   backlinks_payload (backlinks_body [JStr ''x'']) = Some (JArr [JStr ''x'']) \<and>
   own_prop (JStr ''x'') ''anchor'' = None \<and>
   formatBacklinks (backlinks_body [JStr ''x'']) =
     Inr [JObj [(''anchor'', JBuiltin ''String.prototype.anchor''), (''domainRating'', JNum 0),
                (''title'', JStr []), (''urlFrom'', JStr []), (''urlTo'', JStr []),
                (''edu'', JBool False), (''gov'', JBool False)]]"
proof -
  have "formatBacklinks (backlinks_body [backlink_full, JNull]) = Inl TypeError"
    by (simp add: formatBacklinks_unfold truthy_def map_simplifyBacklink del: map_exn.simps)
  moreover have "formatBacklinks (backlinks_body [JStr ''x'']) = Inr [backlink_fields (JStr ''x'')]"
    by (simp add: formatBacklinks_unfold truthy_def map_simplifyBacklink del: map_exn.simps)
  moreover have "backlink_fields (JStr ''x'') =
      JObj [(''anchor'', JBuiltin ''String.prototype.anchor''), (''domainRating'', JNum 0),
                (''title'', JStr []), (''urlFrom'', JStr []), (''urlTo'', JStr []),
                (''edu'', JBool False), (''gov'', JBool False)]"
    by (simp add: backlink_fields_def js_prop_anchor(1) js_or_def array_index_def is_digit_def)
  moreover have "own_prop (JStr ''x'') ''anchor'' = None"
    by (simp add: array_index_def is_digit_def)
  ultimately show ?thesis by simp
qed

text \<open>
  Instances: a list of a full backlink (with one more field, which is dropped) and an
  empty object; a list with a \<open>null\<close>; a payload that is a string; a response without
  \<open>topBacklinks\<close>; a response that is no array.
\<close>

theorem backlinks_seven_fields_witness:
  "formatBacklinks (backlinks_body [backlink_full, JObj []]) =
     Inr [JObj [(''anchor'', JStr ''best seo''), (''domainRating'', JNum 71), (''title'', JStr ''Guide''),
                (''urlFrom'', JStr ''https://a.example/x''), (''urlTo'', JStr ''https://example.com/''),
                (''edu'', JBool True), (''gov'', JBool False)],
          JObj [(''anchor'', JStr []), (''domainRating'', JNum 0), (''title'', JStr []),
                (''urlFrom'', JStr []), (''urlTo'', JStr []),
                (''edu'', JBool False), (''gov'', JBool False)]] \<and>
   formatBacklinks (backlinks_body [JObj [], JNull]) = Inl TypeError \<and>
   formatBacklinks (Some (JArr [JStr ''Ok'', JObj [(''topBacklinks'', JObj [(''backlinks'', JStr ''none'')])]]))
     = Inl TypeError \<and>
   own_prop (backlink_fields (JObj [])) ''anchor'' = Some (JStr []) \<and>
   own_prop (backlink_fields (JObj [])) ''domainRating'' = Some (JNum 0) \<and>
   own_prop (backlink_fields (JObj [])) ''title'' = Some (JStr []) \<and>
   own_prop (backlink_fields (JObj [])) ''urlFrom'' = Some (JStr []) \<and>
   own_prop (backlink_fields (JObj [])) ''urlTo'' = Some (JStr []) \<and>
   own_prop (backlink_fields (JObj [])) ''edu'' = Some (JBool False) \<and>
   own_prop (backlink_fields (JObj [])) ''gov'' = Some (JBool False) \<and>
   formatBacklinks (Some (JArr [JStr ''Ok'', JObj []])) = Inr [] \<and>
   formatBacklinks (Some (JObj [(''error'', JStr ''blocked'')])) = Inr []"
proof -
  let ?d = "backlinks_body [backlink_full, JObj []]"
  let ?dn = "backlinks_body [JObj [], JNull]"
  let ?ds = "Some (JArr [JStr ''Ok'', JObj [(''topBacklinks'', JObj [(''backlinks'', JStr ''none'')])]])"
  note th = backlinks_seven_fields[of ?d "JObj []"]
  have h: "backlinks_payload ?d = Some (JArr [backlink_full, JObj []]) \<and> JNull \<notin> set [backlink_full, JObj []]"
    by (simp add: backlink_full_def)
  from th h have a: "formatBacklinks ?d = Inr (map backlink_fields [backlink_full, JObj []])"
    by blast
  have hn: "backlinks_payload ?dn = Some (JArr [JObj [], JNull]) \<and> JNull \<in> set [JObj [], JNull]"
    by simp
  from backlinks_seven_fields[of ?dn "JObj []"] hn
  have an: "formatBacklinks ?dn = Inl TypeError" by blast
  have ps: "backlinks_payload ?ds = Some (JStr ''none'')"
    by (simp add: backlinks_payload_def js_opt_def)
  have hs: "truthy (backlinks_payload ?ds) \<and> (\<forall>items. backlinks_payload ?ds \<noteq> Some (JArr items))"
    unfolding ps by (simp add: truthy_def)
  from backlinks_seven_fields[of ?ds "JObj []"] hs
  have as: "formatBacklinks ?ds = Inl TypeError" by blast
  have m: "(\<forall>str. JObj [] \<noteq> JStr str) \<and> own_prop (JObj []) ''anchor'' = None"
    "own_prop (JObj []) ''domainRating'' = None"
    "own_prop (JObj []) ''title'' = None" "own_prop (JObj []) ''urlFrom'' = None"
    "own_prop (JObj []) ''urlTo'' = None" "own_prop (JObj []) ''edu'' = None"
    "own_prop (JObj []) ''gov'' = None"
    by simp_all
  from th m have b: "own_prop (backlink_fields (JObj [])) ''anchor'' = Some (JStr [])"
    "own_prop (backlink_fields (JObj [])) ''domainRating'' = Some (JNum 0)"
    "own_prop (backlink_fields (JObj [])) ''title'' = Some (JStr [])"
    "own_prop (backlink_fields (JObj [])) ''urlFrom'' = Some (JStr [])"
    "own_prop (backlink_fields (JObj [])) ''urlTo'' = Some (JStr [])"
    "own_prop (backlink_fields (JObj [])) ''edu'' = Some (JBool False)"
    "own_prop (backlink_fields (JObj [])) ''gov'' = Some (JBool False)"
    by blast+
  have n1: "\<not> truthy (backlinks_payload (Some (JArr [JStr ''Ok'', JObj []])))"
    by (simp add: backlinks_payload_def js_opt_def truthy_def)
  have n2: "\<not> truthy (backlinks_payload (Some (JObj [(''error'', JStr ''blocked'')])))"
    by (simp add: backlinks_payload_def truthy_def)
  from backlinks_seven_fields[of "Some (JArr [JStr ''Ok'', JObj []])" "JObj []"] n1
  have c: "formatBacklinks (Some (JArr [JStr ''Ok'', JObj []])) = Inr []" by blast
  from backlinks_seven_fields[of "Some (JObj [(''error'', JStr ''blocked'')])" "JObj []"] n2
  have d: "formatBacklinks (Some (JObj [(''error'', JStr ''blocked'')])) = Inr []" by blast
  have e: "map backlink_fields [backlink_full, JObj []] =
      [JObj [(''anchor'', JStr ''best seo''), (''domainRating'', JNum 71), (''title'', JStr ''Guide''),
                (''urlFrom'', JStr ''https://a.example/x''), (''urlTo'', JStr ''https://example.com/''),
                (''edu'', JBool True), (''gov'', JBool False)],
          JObj [(''anchor'', JStr []), (''domainRating'', JNum 0), (''title'', JStr []),
                (''urlFrom'', JStr []), (''urlTo'', JStr []),
                (''edu'', JBool False), (''gov'', JBool False)]]"
    by (simp add: backlink_fields_def backlink_full_def js_or_def js_prop_anchor(2))
  from a an as b c d show ?thesis unfolding e by blast
qed


section \<open>Properties of the keyword-ideas normalisation\<close>

lemma simplifyIdea_cases:
  "simplifyIdea label idea = (if idea = JNull then Inl TypeError else Inr (idea_entry label idea))"
  by (simp add: simplifyIdea_def idea_entry_def idea_value_def field_or_defined field_or_null)

lemma push_ideas_cases:
  "push_ideas label ideas acc =
     (if JNull \<in> set ideas then Inl TypeError else Inr (acc @ map (idea_entry label) ideas))"
  by (induction ideas arbitrary: acc) (auto simp: simplifyIdea_cases)

lemma group_loop:
  "(if truthy v then bind_exn (js_iter v) (\<lambda>ideas. push_ideas label ideas acc) else Inr acc) =
     (case ideas_of v of
        None \<Rightarrow> Inl TypeError
      | Some ideas \<Rightarrow>
          if JNull \<in> set ideas then Inl TypeError else Inr (acc @ map (idea_entry label) ideas))"
proof (cases "truthy v")
  case False
  then show ?thesis by (simp add: ideas_of_def)
next
  case True
  show ?thesis
  proof (cases "js_iter v")
    case (Inl err)
    then have "err = TypeError" by (auto simp: js_iter_def split: option.splits json.splits)
    with Inl True show ?thesis by (simp add: ideas_of_def)
  next
    case (Inr xs)
    with True show ?thesis by (simp add: ideas_of_def push_ideas_cases)
  qed
qed

lemma formatKeywordIdeas_unfold:
  "formatKeywordIdeas d =
     (case ideas_of (idea_group d ''allIdeas'') of
        None \<Rightarrow> Inl TypeError
      | Some as \<Rightarrow>
          if JNull \<in> set as then Inl TypeError
          else (case ideas_of (idea_group d ''questionIdeas'') of
                  None \<Rightarrow> Inl TypeError
                | Some qs \<Rightarrow>
                    if JNull \<in> set qs then Inl TypeError
                    else Inr (map (idea_entry ''keyword ideas'') as @
                              map (idea_entry ''question ideas'') qs)))"
proof (cases "\<exists>xs. d = Some (JArr xs) \<and> 2 \<le> length xs")
  case True
  then obtain xs where xs: "d = Some (JArr xs)" "2 \<le> length xs" by blast
  let ?A = "js_opt (js_opt (Some (xs ! 1)) ''allIdeas'') ''results''"
  let ?Q = "js_opt (js_opt (Some (xs ! 1)) ''questionIdeas'') ''results''"
  have g: "idea_group d ''allIdeas'' = ?A" "idea_group d ''questionIdeas'' = ?Q"
    using xs by (simp_all add: idea_group_def)
  have "formatKeywordIdeas d =
     bind_exn (if truthy ?A then bind_exn (js_iter ?A) (\<lambda>ideas. push_ideas ''keyword ideas'' ideas [])
               else Inr [])
       (\<lambda>result. if truthy ?Q
                  then bind_exn (js_iter ?Q) (\<lambda>ideas. push_ideas ''question ideas'' ideas result)
                  else Inr result)"
    using xs by (simp add: formatKeywordIdeas_def Let_def)
  also have "\<dots> = (case ideas_of ?A of
        None \<Rightarrow> Inl TypeError
      | Some as \<Rightarrow>
          if JNull \<in> set as then Inl TypeError
          else (case ideas_of ?Q of
                  None \<Rightarrow> Inl TypeError
                | Some qs \<Rightarrow>
                    if JNull \<in> set qs then Inl TypeError
                    else Inr (map (idea_entry ''keyword ideas'') as @
                              map (idea_entry ''question ideas'') qs)))"
    unfolding group_loop by (simp split: option.splits)
  finally show ?thesis unfolding g .
next
  case False
  then have g: "idea_group d g = None" for g
    by (auto simp: idea_group_def split: option.splits json.splits)
  have i: "ideas_of None = Some []" by (simp add: ideas_of_def truthy_def)
  from False have "formatKeywordIdeas d = Inr []"
    by (auto simp: formatKeywordIdeas_def split: option.splits json.splits)
  then show ?thesis by (simp add: g i)
qed

text \<open>
  Claim C8. The list \<open>formatKeywordIdeas\<close> returns is the entries of the \<open>allIdeas\<close>
  group, labelled \<open>'keyword ideas'\<close>, followed by the entries of the \<open>questionIdeas\<close>
  group, labelled \<open>'question ideas'\<close>, each group in the order received: it returns that
  list whenever the groups are absent or arrays without a \<open>null\<close> item, and whatever it
  returns has that form. The value of an entry has exactly the fields
  \<open>keyword, country, difficulty, volume, updatedAt\<close>; a missing \<open>keyword\<close> becomes
  \<open>'No keyword'\<close>, a missing \<open>country\<close> or \<open>updatedAt\<close> becomes \<open>'-'\<close>, a missing
  \<open>difficultyLabel\<close> or \<open>volumeLabel\<close> becomes \<open>'Unknown'\<close>.
\<close>

theorem keyword_ideas_ordered:
  "(\<forall>as qs. ideas_of (idea_group d ''allIdeas'') = Some as \<and>
             ideas_of (idea_group d ''questionIdeas'') = Some qs \<and>
             JNull \<notin> set as \<and> JNull \<notin> set qs \<longrightarrow>
      formatKeywordIdeas d =
        Inr (map (idea_entry ''keyword ideas'') as @ map (idea_entry ''question ideas'') qs)) \<and>
   (\<forall>out. formatKeywordIdeas d = Inr out \<longrightarrow>
      (\<exists>as qs. ideas_of (idea_group d ''allIdeas'') = Some as \<and>
               ideas_of (idea_group d ''questionIdeas'') = Some qs \<and>
               out = map (idea_entry ''keyword ideas'') as @ map (idea_entry ''question ideas'') qs)) \<and>
   field_names (idea_entry label idea) = [''label'', ''value''] \<and>
   js_prop (idea_entry label idea) ''label'' = Some (JStr label) \<and>
   js_prop (idea_entry label idea) ''value'' = Some (idea_value idea) \<and>
   field_names (idea_value idea) = [''keyword'', ''country'', ''difficulty'', ''volume'', ''updatedAt''] \<and>
   (js_prop idea ''keyword'' = None \<longrightarrow> js_prop (idea_value idea) ''keyword'' = Some (JStr ''No keyword'')) \<and>
   (js_prop idea ''country'' = None \<longrightarrow> js_prop (idea_value idea) ''country'' = Some (JStr ''-'')) \<and>
   (js_prop idea ''updatedAt'' = None \<longrightarrow> js_prop (idea_value idea) ''updatedAt'' = Some (JStr ''-'')) \<and>
   (js_prop idea ''difficultyLabel'' = None \<longrightarrow> js_prop (idea_value idea) ''difficulty'' = Some (JStr ''Unknown'')) \<and>
   (js_prop idea ''volumeLabel'' = None \<longrightarrow> js_prop (idea_value idea) ''volume'' = Some (JStr ''Unknown''))"
proof (intro conjI allI impI)
  fix as qs
  assume "ideas_of (idea_group d ''allIdeas'') = Some as \<and>
             ideas_of (idea_group d ''questionIdeas'') = Some qs \<and>
             JNull \<notin> set as \<and> JNull \<notin> set qs"
  then show "formatKeywordIdeas d =
        Inr (map (idea_entry ''keyword ideas'') as @ map (idea_entry ''question ideas'') qs)"
    by (simp add: formatKeywordIdeas_unfold)
next
  fix out
  assume "formatKeywordIdeas d = Inr out"
  then show "\<exists>as qs. ideas_of (idea_group d ''allIdeas'') = Some as \<and>
               ideas_of (idea_group d ''questionIdeas'') = Some qs \<and>
               out = map (idea_entry ''keyword ideas'') as @ map (idea_entry ''question ideas'') qs"
    by (auto simp: formatKeywordIdeas_unfold split: option.splits if_splits)
qed (simp_all add: idea_entry_def idea_value_def field_names_def)

text \<open>
  An instance: two keyword ideas (one without any field) and one question idea.
\<close>

theorem keyword_ideas_ordered_witness:
  "formatKeywordIdeas ideas_body =
     Inr [JObj [(''label'', JStr ''keyword ideas''),
                (''value'', JObj [(''keyword'', JStr ''a''), (''country'', JStr ''us''),
                                  (''difficulty'', JStr ''Easy''), (''volume'', JStr ''MoreThanOneHundred''),
                                  (''updatedAt'', JStr ''2025-04-01T00:00:00Z'')])],
          JObj [(''label'', JStr ''keyword ideas''),
                (''value'', JObj [(''keyword'', JStr ''No keyword''), (''country'', JStr ''-''),
                                  (''difficulty'', JStr ''Unknown''), (''volume'', JStr ''Unknown''),
                                  (''updatedAt'', JStr ''-'')])],
          JObj [(''label'', JStr ''question ideas''),
                (''value'', JObj [(''keyword'', JStr ''b''), (''country'', JStr ''-''),
                                  (''difficulty'', JStr ''Unknown''), (''volume'', JStr ''Unknown''),
                                  (''updatedAt'', JStr ''-'')])]] \<and>
   js_prop (idea_value (JObj [])) ''keyword'' = Some (JStr ''No keyword'') \<and>
   js_prop (idea_value (JObj [])) ''country'' = Some (JStr ''-'') \<and>
   js_prop (idea_value (JObj [])) ''updatedAt'' = Some (JStr ''-'') \<and>
   js_prop (idea_value (JObj [])) ''difficulty'' = Some (JStr ''Unknown'') \<and>
   js_prop (idea_value (JObj [])) ''volume'' = Some (JStr ''Unknown'')"
proof -
  let ?a = "JObj [(''keyword'', JStr ''a''), (''country'', JStr ''us''),
                            (''difficultyLabel'', JStr ''Easy''), (''volumeLabel'', JStr ''MoreThanOneHundred''),
                            (''updatedAt'', JStr ''2025-04-01T00:00:00Z'')]"
  let ?b = "JObj [(''keyword'', JStr ''b'')]"
  note th = keyword_ideas_ordered[of ideas_body "''keyword ideas''" "JObj []"]
  have g1: "idea_group ideas_body ''allIdeas'' = Some (JArr [?a, JObj []])"
    and g2: "idea_group ideas_body ''questionIdeas'' = Some (JArr [?b])"
    by (simp_all add: idea_group_def ideas_body_def js_opt_def)
  have h: "ideas_of (idea_group ideas_body ''allIdeas'') = Some [?a, JObj []] \<and>
           ideas_of (idea_group ideas_body ''questionIdeas'') = Some [?b] \<and>
           JNull \<notin> set [?a, JObj []] \<and> JNull \<notin> set [?b]"
    unfolding g1 g2 by (simp add: ideas_of_def truthy_def js_iter_def)
  from th h have r: "formatKeywordIdeas ideas_body =
        Inr (map (idea_entry ''keyword ideas'') [?a, JObj []] @ map (idea_entry ''question ideas'') [?b])"
    by blast
  have m: "js_prop (JObj []) ''keyword'' = None" "js_prop (JObj []) ''country'' = None"
    "js_prop (JObj []) ''updatedAt'' = None" "js_prop (JObj []) ''difficultyLabel'' = None"
    "js_prop (JObj []) ''volumeLabel'' = None"
    by simp_all
  from th m have dflt: "js_prop (idea_value (JObj [])) ''keyword'' = Some (JStr ''No keyword'')"
    "js_prop (idea_value (JObj [])) ''country'' = Some (JStr ''-'')"
    "js_prop (idea_value (JObj [])) ''updatedAt'' = Some (JStr ''-'')"
    "js_prop (idea_value (JObj [])) ''difficulty'' = Some (JStr ''Unknown'')"
    "js_prop (idea_value (JObj [])) ''volume'' = Some (JStr ''Unknown'')"
    by blast+
  have e: "map (idea_entry ''keyword ideas'') [?a, JObj []] @ map (idea_entry ''question ideas'') [?b] =
     [JObj [(''label'', JStr ''keyword ideas''),
                (''value'', JObj [(''keyword'', JStr ''a''), (''country'', JStr ''us''),
                                  (''difficulty'', JStr ''Easy''), (''volume'', JStr ''MoreThanOneHundred''),
                                  (''updatedAt'', JStr ''2025-04-01T00:00:00Z'')])],
          JObj [(''label'', JStr ''keyword ideas''),
                (''value'', JObj [(''keyword'', JStr ''No keyword''), (''country'', JStr ''-''),
                                  (''difficulty'', JStr ''Unknown''), (''volume'', JStr ''Unknown''),
                                  (''updatedAt'', JStr ''-'')])],
          JObj [(''label'', JStr ''question ideas''),
                (''value'', JObj [(''keyword'', JStr ''b''), (''country'', JStr ''-''),
                                  (''difficulty'', JStr ''Unknown''), (''volume'', JStr ''Unknown''),
                                  (''updatedAt'', JStr ''-'')])]]"
    by (simp add: idea_entry_def idea_value_def js_or_def)
  from r dflt show ?thesis unfolding e by blast
qed


section \<open>Properties of the credential provider\<close>




lemma save_trace [simp]: "trace (snd (saveSignatureToCache e sg vu ov d s)) = trace s"
  by (simp add: saveSignatureToCache_def Let_def split: sum.splits option.splits)

















lemma site_world_simps [simp]:
  "http site_world = http_world (Response 200 (Some (JArr overview_body)))
                          (Response 200 (backlinks_body [backlink_full]))"
  "write_file site_world = (\<lambda>h c. None)"
  "date_now site_world = (\<lambda>h. 1700000000000)"
  "date_parse site_world ''2030-01-01T00:00:00+00:00'' = Some 1893456000000"
  by (simp_all add: site_world_def env_world_def env0_def)










end
